theory Spec2Isabelle
  imports Complex_Main "HOL-Library.Multiset"
begin

section \<open>The training pipeline of src/ml/train.py\<close>

text \<open>
  The script is one function, \<^verbatim>\<open>train_model\<close>, that reads a CSV file, cleans it,
  splits it, fits an isolation forest, converts it to ONNX and writes two files.
  The model below follows it statement by statement. What the script computes itself
  (the control flow, the printed lines, the metadata dictionary, the declared input
  type) is written out; what pandas, scikit-learn and skl2onnx compute on the numbers
  (parsing the CSV, the random permutation, the fitted forest, its scores, the ONNX
  graph) is taken from a record of library functions, each of which may raise.
\<close>

subsection \<open>The feature schema (lines 13-41)\<close>

definition FEATURE_NAMES :: "string list" where
  "FEATURE_NAMES =
    [''REQUEST_TIME_S'',
     ''BYTES_SENT'',
     ''HTTP_STATUS_4XX'',
     ''HTTP_STATUS_5XX'',
     ''IS_UA_MISSING'',
     ''IS_UA_HEADLESS'',
     ''IS_UA_KNOWN_BAD'',
     ''IS_UA_CYCLING'',
     ''IS_PATH_NEW_FOR_IP'',
     ''IP_REQ_TIME_ZSCORE'',
     ''IP_BYTES_SENT_ZSCORE'',
     ''IP_ERROR_EVENT_ZSCORE'',
     ''IP_REQ_VOL_ZSCORE'',
     ''PATH_REQ_TIME_ZSCORE'',
     ''PATH_BYTES_SENT_ZSCORE'',
     ''PATH_ERROR_EVENT_ZSCORE'',
     ''SESSION_DURATION_S'',
     ''SESSION_REQ_COUNT'',
     ''SESSION_UNIQUE_PATH_COUNT'',
     ''SESSION_ERROR_4XX_COUNT'',
     ''SESSION_ERROR_5XX_COUNT'',
     ''SESSION_FAILED_LOGIN_COUNT'',
     ''SESSION_AVG_TIME_BETWEEN_REQS_S'',
     ''SESSION_POST_TO_GET_RATIO'',
     ''SESSION_UA_CHANGE_COUNT'',
     ''SESSION_BYTES_SENT_MEAN'',
     ''SESSION_REQ_TIME_MEAN'']"

subsection \<open>Data frames\<close>

text \<open>
  A cell of a numeric data frame is a double: a finite value (of an abstract type
  \<open>'f\<close>), one of the two infinities, or NaN, which pandas also uses as its
  missing-value marker.
\<close>

datatype 'f cell = Finite 'f | PosInf | NegInf | NaN

fun isfinite :: "'f cell \<Rightarrow> bool" where
  "isfinite (Finite _) = True"
| "isfinite _ = False"

text \<open>
  Column labels are integers after \<^verbatim>\<open>read_csv(..., header=None)\<close> and strings
  after \<^verbatim>\<open>df.columns = FEATURE_NAMES\<close>. \<^verbatim>\<open>df.shape[1]\<close> is the number of
  columns, \<^verbatim>\<open>len(df)\<close> the number of rows.
\<close>

datatype label = IntLabel nat | StrLabel string

record 'f dataframe =
  columns :: "label list"
  rows :: "'f cell list list"

definition shape1 :: "'f dataframe \<Rightarrow> nat" where
  "shape1 df = length (columns df)"

definition len :: "'f dataframe \<Rightarrow> nat" where
  "len df = length (rows df)"

text \<open>
  \<^verbatim>\<open>df.replace(to_replace, value)\<close>: every cell equal to one of \<open>to_replace\<close>
  becomes \<open>value\<close>; the shape is unchanged.
\<close>

definition replace :: "'f cell list \<Rightarrow> 'f cell \<Rightarrow> 'f dataframe \<Rightarrow> 'f dataframe" where
  "replace to_replace v df =
     df\<lparr>rows := map (map (\<lambda>c. if c \<in> set to_replace then v else c)) (rows df)\<rparr>"

text \<open>
  \<^verbatim>\<open>df.dropna()\<close> with its defaults (\<^verbatim>\<open>axis=0, how='any'\<close>): a row with a
  NaN in any column is removed, the other rows stay as they are, in order.
\<close>

definition dropna :: "'f dataframe \<Rightarrow> 'f dataframe" where
  "dropna df = df\<lparr>rows := filter (\<lambda>r. NaN \<notin> set r) (rows df)\<rparr>"

subsection \<open>Exceptions and outcomes\<close>

datatype exn =
  ValueError | TypeError | OSError | FileNotFoundError | PermissionError
  | EmptyDataError | ParserError | RuntimeError | MemoryError

text \<open>
  The call of \<^verbatim>\<open>train_model\<close> whose exception leaves the function, as the
  traceback names it by its line: 58, 77, 88, 91, 99, 101, 115.
\<close>

datatype stage =
  ReadCsv | TrainTestSplit | Fit | ScoreSamples | ConvertSklearn | OpenModel | OpenMetadata

text \<open>\<^verbatim>\<open>train_model\<close> has no return value: it returns None or an exception leaves it.\<close>

datatype outcome = Returned | Raised stage exn

subsection \<open>scikit-learn's train_test_split\<close>

text \<open>
  \<^verbatim>\<open>train_test_split(df, test_size=t, random_state=seed)\<close> with a float test size
  and no train size computes \<^verbatim>\<open>n_test = ceil(t * n)\<close>, \<^verbatim>\<open>n_train = n - n_test\<close>,
  raises ValueError when \<^verbatim>\<open>n_train == 0\<close>, draws
  \<^verbatim>\<open>RandomState(seed).permutation(n)\<close>, takes its first \<open>n_test\<close> entries as the
  test indices and the next \<open>n_train\<close> as the training indices, and returns the rows
  at these positions. The generator is the parameter \<open>permutation\<close>; the test size
  is a rational (the rounding of the double product is not modelled).
\<close>

definition validate_shuffle_split :: "nat \<Rightarrow> rat \<Rightarrow> exn + nat \<times> nat" where
  "validate_shuffle_split n_samples test_size =
     (let n_test = nat \<lceil>test_size * of_nat n_samples\<rceil>;
          n_train = n_samples - n_test
      in if n_train = 0 then Inl ValueError else Inr (n_train, n_test))"

definition iter_indices :: "nat list \<Rightarrow> nat \<Rightarrow> nat \<Rightarrow> nat list \<times> nat list" where
  "iter_indices perm n_train n_test =
     (let ind_test = take n_test perm;
          ind_train = take n_train (drop n_test perm)
      in (ind_train, ind_test))"

definition safe_indexing :: "'f dataframe \<Rightarrow> nat list \<Rightarrow> 'f dataframe" where
  "safe_indexing df ind = df\<lparr>rows := map (\<lambda>i. rows df ! i) ind\<rparr>"

definition train_test_split ::
  "(nat \<Rightarrow> nat \<Rightarrow> nat list) \<Rightarrow> 'f dataframe \<Rightarrow> rat \<Rightarrow> nat \<Rightarrow> exn + 'f dataframe \<times> 'f dataframe"
where
  "train_test_split permutation df test_size random_state =
     (let n_samples = len df
      in case validate_shuffle_split n_samples test_size of
           Inl e \<Rightarrow> Inl e
         | Inr (n_train, n_test) \<Rightarrow>
             (let (train, test) = iter_indices (permutation random_state n_samples) n_train n_test
              in Inr (safe_indexing df train, safe_indexing df test)))"

subsection \<open>skl2onnx types, JSON values, files\<close>

text \<open>
  The tensor types of \<^verbatim>\<open>skl2onnx.common.data_types\<close>, each with its shape; a
  dimension \<^verbatim>\<open>None\<close> is a variable one. \<open>FloatTensorType\<close> is the type of 32-bit
  floats, \<open>DoubleTensorType\<close> of 64-bit ones.
\<close>

datatype data_type =
  FloatTensorType "nat option list"
  | DoubleTensorType "nat option list"
  | Int64TensorType "nat option list"
  | StringTensorType "nat option list"

text \<open>
  The ONNX model that \<^verbatim>\<open>convert_sklearn\<close> returns: its graph's inputs are the
  \<^verbatim>\<open>initial_types\<close> it was given, its opset the \<^verbatim>\<open>target_opset\<close>; the nodes
  of the graph are the library's.
\<close>

record 'g onnx_model =
  graph_input :: "(string \<times> data_type) list"
  opset :: nat
  graph_nodes :: 'g

datatype 'f json =
  JString string | JInt int | JFloat 'f | JArray "'f json list" | JObject "(string \<times> 'f json) list"

text \<open>
  What a file holds: text that was there before the run, nothing (a file just opened
  for writing), the bytes of a serialized ONNX model, or the text of a JSON value.
\<close>

datatype ('f, 'g) content =
  Raw string | Empty | SerializeToString "'g onnx_model" | JsonDump "'f json"

datatype ('f, 'g) event =
  Stdout string | FileOpen string | FileWrite string "('f, 'g) content"

record ('f, 'g) world =
  files :: "string \<rightharpoonup> ('f, 'g) content"
  trace :: "('f, 'g) event list"

text \<open>The parameters of \<^verbatim>\<open>IsolationForest(...)\<close> (lines 80-87).\<close>

record hyperparams =
  n_estimators :: nat
  contamination :: string
  max_features :: rat
  bootstrap :: bool
  n_jobs :: int
  random_state :: nat

text \<open>
  The libraries and the clock. \<open>'m\<close> is a fitted forest. Each function that can
  raise returns a sum.
\<close>

record ('f, 'm, 'g) env =
  read_csv :: "('f, 'g) content \<Rightarrow> exn + 'f dataframe"
  permutation :: "nat \<Rightarrow> nat \<Rightarrow> nat list"
  fit :: "hyperparams \<Rightarrow> 'f dataframe \<Rightarrow> exn + 'm"
  score_samples :: "'m \<Rightarrow> 'f dataframe \<Rightarrow> exn + 'f list"
  mean :: "'f list \<Rightarrow> 'f"
  format_4f :: "'f \<Rightarrow> string"
  to_onnx :: "'m \<Rightarrow> exn + 'g"
  open_error :: "string \<Rightarrow> exn option"
  time_time :: rat

definition convert_sklearn ::
  "('f, 'm, 'g) env \<Rightarrow> 'm \<Rightarrow> (string \<times> data_type) list \<Rightarrow> nat \<Rightarrow> exn + 'g onnx_model"
where
  "convert_sklearn E model initial_types target_opset =
     (case to_onnx E model of
        Inl e \<Rightarrow> Inl e
      | Inr g \<Rightarrow> Inr \<lparr>graph_input = initial_types, opset = target_opset, graph_nodes = g\<rparr>)"

subsection \<open>Python's builtins\<close>

definition py_print :: "string \<Rightarrow> ('f, 'g) world \<Rightarrow> ('f, 'g) world" where
  "py_print s w = w\<lparr>trace := trace w @ [Stdout s]\<rparr>"

definition os_path_exists :: "('f, 'g) world \<Rightarrow> string \<Rightarrow> bool" where
  "os_path_exists w p = (files w p \<noteq> None)"

text \<open>\<^verbatim>\<open>open(p, "w")\<close>: raises, or creates the file or truncates it.\<close>

definition py_open_w ::
  "('f, 'm, 'g) env \<Rightarrow> string \<Rightarrow> ('f, 'g) world \<Rightarrow> exn + ('f, 'g) world"
where
  "py_open_w E p w =
     (case open_error E p of
        Some e \<Rightarrow> Inl e
      | None \<Rightarrow> Inr (w\<lparr>files := (files w)(p \<mapsto> Empty), trace := trace w @ [FileOpen p]\<rparr>))"

definition f_write :: "string \<Rightarrow> ('f, 'g) content \<Rightarrow> ('f, 'g) world \<Rightarrow> ('f, 'g) world" where
  "f_write p c w = w\<lparr>files := (files w)(p \<mapsto> c), trace := trace w @ [FileWrite p c]\<rparr>"

text \<open>\<^verbatim>\<open>int(x)\<close> on a float truncates towards zero.\<close>

definition py_int :: "rat \<Rightarrow> int" where
  "py_int x = (if 0 \<le> x then \<lfloor>x\<rfloor> else \<lceil>x\<rceil>)"

text \<open>\<^verbatim>\<open>str(n)\<close>, as an f-string formats a non-negative integer.\<close>

fun str :: "nat \<Rightarrow> string" where
  "str n = (if n < 10 then [''0123456789'' ! n] else str (n div 10) @ [''0123456789'' ! (n mod 10)])"

declare str.simps [simp del]

subsection \<open>train_model (lines 44-118)\<close>

definition forest_params :: hyperparams where
  "forest_params =
     \<lparr>n_estimators = 100, contamination = ''auto'', max_features = 1, bootstrap = False,
      n_jobs = - 1, random_state = 42\<rparr>"

definition metadata :: "('f, 'm, 'g) env \<Rightarrow> string \<Rightarrow> 'f dataframe \<Rightarrow> 'f \<Rightarrow> 'f json" where
  "metadata E data_path X_train avg_score =
     JObject
       [(''model_type'', JString ''IsolationForest''),
        (''training_timestamp_utc'', JInt (py_int (time_time E))),
        (''training_data_path'', JString data_path),
        (''training_samples'', JInt (int (len X_train))),
        (''num_features'', JInt (int (length FEATURE_NAMES))),
        (''feature_names_ordered'', JArray (map JString FEATURE_NAMES)),
        (''evaluation_metrics'', JObject [(''average_anomaly_score_test'', JFloat avg_score)])]"

definition train_model ::
  "('f, 'm, 'g) env \<Rightarrow> string \<Rightarrow> string \<Rightarrow> string \<Rightarrow> ('f, 'g) world \<Rightarrow> outcome \<times> ('f, 'g) world"
where
  "train_model E data_path model_output_path metadata_output_path w0 =
    (let w1 = py_print ''--- ML Training Pipeline Started ---'' w0;
         w2 = py_print (''Loading feature data from: '' @ data_path) w1
     in
     if \<not> os_path_exists w2 data_path then
       (let w3 = py_print ([CHR 0x0A] @ ''FATAL ERROR: Data file not found at '' @ [CHR 0x27]
                             @ data_path @ [CHR 0x27] @ ''.'') w2;
            w4 = py_print (''Please run the C++ application with '' @ [CHR 0x27]
                             @ ''ml_data_collection_enabled = true'' @ [CHR 0x27]
                             @ '' to generate it first.'') w3
        in (Returned, w4))
     else
     case read_csv E (the (files w2 data_path)) of
       Inl e \<Rightarrow> (Raised ReadCsv e, w2)
     | Inr df \<Rightarrow>
     if shape1 df \<noteq> length FEATURE_NAMES then
       (let w3 = py_print ([CHR 0x0A] @ ''FATAL ERROR: Mismatch in feature count!'') w2;
            w4 = py_print (''  Expected '' @ str (length FEATURE_NAMES)
                             @ '' features based on script, but found '' @ str (shape1 df)
                             @ '' in CSV.'') w3;
            w5 = py_print
                   ''  Check if C++ Feature enum and Python FEATURE_NAMES list are in sync.'' w4
        in (Returned, w5))
     else
     (let df = df\<lparr>columns := map StrLabel FEATURE_NAMES\<rparr>;
          w3 = py_print (''Loaded '' @ str (len df) @ '' raw samples.'') w2;
          df = replace [PosInf, NegInf] NaN df;
          df = dropna df;
          w4 = py_print (''Using '' @ str (len df) @ '' samples after cleaning NaN/inf values.'') w3;
          w5 = (if len df < 200
                then py_print ''Warning: Dataset is very small. Model quality may be poor.'' w4
                else w4)
      in
      case train_test_split (permutation E) df (3 / 10) 42 of
        Inl e \<Rightarrow> (Raised TrainTestSplit e, w5)
      | Inr (X_train, X_test) \<Rightarrow>
      (let w6 = py_print (''Training IsolationForest model on '' @ str (len X_train)
                            @ '' samples...'') w5
       in
       case fit E forest_params X_train of
         Inl e \<Rightarrow> (Raised Fit e, w6)
       | Inr model \<Rightarrow>
       (let w7 = py_print ''Evaluating model performance...'' w6
        in
        case score_samples E model X_test of
          Inl e \<Rightarrow> (Raised ScoreSamples e, w7)
        | Inr scores_test \<Rightarrow>
        (let avg_score = mean E scores_test;
             w8 = py_print (''  - Average Anomaly Score (on test set): ''
                              @ format_4f E avg_score) w7;
             w9 = py_print ''Converting model to ONNX format...'' w8;
             num_features = length FEATURE_NAMES;
             initial_type = [(''float_input'', FloatTensorType [None, Some num_features])]
         in
         case convert_sklearn E model initial_type 13 of
           Inl e \<Rightarrow> (Raised ConvertSklearn e, w9)
         | Inr onnx \<Rightarrow>
         (case py_open_w E model_output_path w9 of
            Inl e \<Rightarrow> (Raised OpenModel e, w9)
          | Inr w10 \<Rightarrow>
          (let w11 = f_write model_output_path (SerializeToString onnx) w10;
               w12 = py_print (''  -> ONNX model saved to: '' @ model_output_path) w11;
               md = metadata E data_path X_train avg_score
           in
           case py_open_w E metadata_output_path w12 of
             Inl e \<Rightarrow> (Raised OpenMetadata e, w12)
           | Inr w13 \<Rightarrow>
           (let w14 = f_write metadata_output_path (JsonDump md) w13;
                w15 = py_print (''  -> Model metadata saved to: '' @ metadata_output_path) w14;
                w16 = py_print ''--- ML Training Pipeline Finished ---'' w15
            in (Returned, w16)))))))))"

subsection \<open>The script (lines 121-126)\<close>

definition DATA_PATH :: string where
  "DATA_PATH = ''data/training_features.csv''"

definition MODEL_PATH :: string where
  "MODEL_PATH = ''src/models/isolation_forest.onnx''"

definition METADATA_PATH :: string where
  "METADATA_PATH = ''src/models/isolation_forest.json''"

text \<open>
  The interpreter runs the module: when \<^verbatim>\<open>train_model\<close> returns the script ends
  with exit status 0; an exception that leaves it is printed as a traceback and the
  status is 1.
\<close>

datatype report = Traceback stage exn

definition uncaught :: "outcome \<times> ('f, 'g) world \<Rightarrow> int \<times> report list \<times> ('f, 'g) world" where
  "uncaught res =
     (case res of
        (Returned, w') \<Rightarrow> (0, [], w')
      | (Raised s e, w') \<Rightarrow> (1, [Traceback s e], w'))"

definition run_script ::
  "('f, 'm, 'g) env \<Rightarrow> ('f, 'g) world \<Rightarrow> int \<times> report list \<times> ('f, 'g) world"
where
  "run_script E w = uncaught (train_model E DATA_PATH MODEL_PATH METADATA_PATH w)"

subsection \<open>Observing a run\<close>

text \<open>The events a run added to the trace, the file operations and the printed lines among them.\<close>

definition new_events :: "('f, 'g) world \<Rightarrow> ('f, 'g) world \<Rightarrow> ('f, 'g) event list" where
  "new_events w w' = drop (length (trace w)) (trace w')"

fun is_file_event :: "('f, 'g) event \<Rightarrow> bool" where
  "is_file_event (Stdout _) = False"
| "is_file_event (FileOpen _) = True"
| "is_file_event (FileWrite _ _) = True"

definition file_events :: "('f, 'g) event list \<Rightarrow> ('f, 'g) event list" where
  "file_events evs = filter is_file_event evs"

fun is_metadata_write :: "('f, 'g) event \<Rightarrow> bool" where
  "is_metadata_write (FileWrite _ (JsonDump _)) = True"
| "is_metadata_write _ = False"

fun is_fatal_line :: "('f, 'g) event \<Rightarrow> bool" where
  "is_fatal_line (Stdout s) = (take 13 s = [CHR 0x0A] @ ''FATAL ERROR:'')"
| "is_fatal_line _ = False"

text \<open>
  The data frame after line 71, and the split of line 77, as functions of the parsed
  data frame: the values the statements about a run refer to.
\<close>

definition cleaned :: "'f dataframe \<Rightarrow> 'f dataframe" where
  "cleaned df = dropna (replace [PosInf, NegInf] NaN (df\<lparr>columns := map StrLabel FEATURE_NAMES\<rparr>))"

definition split77 ::
  "('f, 'm, 'g) env \<Rightarrow> 'f dataframe \<Rightarrow> exn + 'f dataframe \<times> 'f dataframe"
where
  "split77 E df = train_test_split (permutation E) (cleaned df) (3 / 10) 42"

subsection \<open>Example runs\<close>

text \<open>
  A library whose calls all succeed, with the reversed range as the permutation, over
  a data file that parses to the given rows; and a world that holds the data file.
\<close>

definition example_env :: "label list \<Rightarrow> rat cell list list \<Rightarrow> (rat, nat, nat) env" where
  "example_env cols rs =
     \<lparr>read_csv = (\<lambda>_. Inr \<lparr>columns = cols, rows = rs\<rparr>),
      permutation = (\<lambda>seed n. rev [0..<n]),
      fit = (\<lambda>_ _. Inr 7),
      score_samples = (\<lambda>_ X. Inr (map (\<lambda>_. - 1 / 2) (rows X))),
      mean = (\<lambda>_. - 1 / 2),
      format_4f = (\<lambda>_. ''-0.5000''),
      to_onnx = (\<lambda>_. Inr 7),
      open_error = (\<lambda>_. None),
      time_time = 1700000000 + 1 / 4\<rparr>"

definition example_world :: "(rat, nat) world" where
  "example_world = \<lparr>files = [''data.csv'' \<mapsto> Raw ''...''], trace = []\<rparr>"

definition cols27 :: "label list" where
  "cols27 = map IntLabel [0..<27]"

definition cols26 :: "label list" where
  "cols26 = map IntLabel [0..<26]"

definition good_row :: "rat cell list" where
  "good_row = replicate 27 (Finite 1)"

definition four_rows :: "rat dataframe" where
  "four_rows =
     \<lparr>columns = [IntLabel 0], rows = [[Finite 10], [Finite 11], [Finite 12], [Finite 13]]\<rparr>"

definition failing_fit_env :: "(rat, nat, nat) env" where
  "failing_fit_env = (example_env cols27 (replicate 3 good_row))\<lparr>fit := (\<lambda>_ _. Inl ValueError)\<rparr>"

definition failing_convert_env :: "(rat, nat, nat) env" where
  "failing_convert_env =
     (example_env cols27 (replicate 3 good_row))\<lparr>to_onnx := (\<lambda>_. Inl RuntimeError)\<rparr>"

definition nan_row :: "rat cell list" where
  "nan_row = replicate 27 NaN"

text \<open>
  A data file of five rows of which two hold a non-finite value; a library whose model,
  scores and mean depend on the frames they are given, over four rows numbered in their
  first column; and a library for which no output file can be opened (the directory of
  the output paths does not exist).
\<close>

definition mixed_rows :: "rat cell list list" where
  "mixed_rows = [good_row, nan_row, good_row, PosInf # replicate 26 (Finite 2), good_row]"

definition numbered_row :: "rat \<Rightarrow> rat cell list" where
  "numbered_row x = Finite x # replicate 26 (Finite 0)"

definition scoring_env :: "(rat, nat, nat) env" where
  "scoring_env =
     (example_env cols27 [numbered_row 1, numbered_row 2, numbered_row 3, numbered_row 4])
       \<lparr>fit := (\<lambda>_ X. Inr (len X)),
        score_samples :=
          (\<lambda>m X. Inr (map (\<lambda>r. case r of Finite x # _ \<Rightarrow> - x / of_nat m | _ \<Rightarrow> 0) (rows X))),
        mean := (\<lambda>xs. sum_list xs / of_nat (length xs)),
        format_4f := (\<lambda>_. ''-1.7500''),
        to_onnx := (\<lambda>m. Inr m)\<rparr>"


section \<open>Properties\<close>

subsection \<open>Basic facts\<close>

lemma len_FEATURE_NAMES: "length FEATURE_NAMES = 27"
  by (simp add: FEATURE_NAMES_def)

lemma py_print_simps [simp]:
  "files (py_print s w) = files w"
  "trace (py_print s w) = trace w @ [Stdout s]"
  by (simp_all add: py_print_def)

lemma f_write_simps [simp]:
  "files (f_write p c w) = (files w)(p \<mapsto> c)"
  "trace (f_write p c w) = trace w @ [FileWrite p c]"
  by (simp_all add: f_write_def)

lemma py_open_w_Inr:
  "py_open_w E p w = Inr w' \<Longrightarrow>
     files w' = (files w)(p \<mapsto> Empty) \<and> trace w' = trace w @ [FileOpen p]"
  by (auto simp: py_open_w_def split: option.splits)

lemma os_path_exists_py_print [simp]: "os_path_exists (py_print s w) p = os_path_exists w p"
  by (simp add: os_path_exists_def)

subsection \<open>The cleaner (lines 70-71)\<close>

lemma replace_inf_row_NaN:
  "NaN \<notin> set (map (\<lambda>c. if c \<in> set [PosInf, NegInf] then NaN else c) r)
     \<longleftrightarrow> (\<forall>c\<in>set r. isfinite c)"
proof (induction r)
  case Nil
  then show ?case by simp
next
  case (Cons c r)
  then show ?case by (cases c) auto
qed

lemma replace_inf_row_id:
  "\<forall>c\<in>set r. isfinite c \<Longrightarrow> map (\<lambda>c. if c \<in> set [PosInf, NegInf] then NaN else c) r = r"
  by (induction r) auto

lemma cleaned_rows:
  "rows (dropna (replace [PosInf, NegInf] NaN df))
     = filter (\<lambda>r. \<forall>c\<in>set r. isfinite c) (rows df)"
proof -
  let ?f = "map (\<lambda>c. if c \<in> set [PosInf, NegInf] then NaN else c)"
  have "filter (\<lambda>r. NaN \<notin> set r) (map ?f xs) = filter (\<lambda>r. \<forall>c\<in>set r. isfinite c) xs"
    for xs :: "'a cell list list"
  proof (induction xs)
    case Nil
    then show ?case by simp
  next
    case (Cons r xs)
    show ?case
    proof (cases "\<forall>c\<in>set r. isfinite c")
      case True
      then have "?f r = r" by (rule replace_inf_row_id)
      moreover have "NaN \<notin> set (?f r)" using True replace_inf_row_NaN[of r] by blast
      ultimately show ?thesis using Cons True by simp
    next
      case False
      then have "\<not> NaN \<notin> set (?f r)" using replace_inf_row_NaN[of r] by blast
      then show ?thesis using Cons False by simp
    qed
  qed
  then show ?thesis by (simp add: dropna_def replace_def)
qed

lemma cleaned_frame:
  "rows (cleaned df) = filter (\<lambda>r. \<forall>c\<in>set r. isfinite c) (rows df)
   \<and> len (cleaned df) = len df - length (filter (\<lambda>r. \<exists>c\<in>set r. \<not> isfinite c) (rows df))"
proof -
  have "length (filter (\<lambda>r. \<forall>c\<in>set r. isfinite c) (rows df))
        + length (filter (\<lambda>r. \<exists>c\<in>set r. \<not> isfinite c) (rows df)) = length (rows df)"
    using sum_length_filter_compl[of "\<lambda>r. \<forall>c\<in>set r. isfinite c" "rows df"]
    by (simp add: o_def)
  then show ?thesis by (simp add: cleaned_def cleaned_rows len_def)
qed

subsection \<open>The splitter (line 77)\<close>

lemma n_test_eq: "nat \<lceil>(3 / 10 :: rat) * of_nat n\<rceil> = (3 * n + 9) div 10"
proof -
  define k where "k = (3 * n + 9) div 10"
  define r where "r = (3 * n + 9) mod 10"
  have "3 * n + 9 = 10 * k + r" by (simp add: k_def r_def)
  then have "(of_nat (3 * n + 9) :: rat) = of_nat (10 * k + r)" by (simp only:)
  then have e: "3 * (of_nat n :: rat) + 9 = 10 * of_nat k + of_nat r" by simp
  have "r < 10" by (simp add: r_def)
  then have "(of_nat r :: rat) < of_nat 10" by (simp only: of_nat_less_iff)
  then have r1: "(of_nat r :: rat) < 10" by simp
  have r0: "(0::rat) \<le> of_nat r" by simp
  have "\<lceil>(3 / 10 :: rat) * of_nat n\<rceil> = int k"
  proof (rule ceiling_unique)
    show "of_int (int k) - 1 < (3 / 10 :: rat) * of_nat n" using e r1 r0 by simp
    show "(3 / 10 :: rat) * of_nat n \<le> of_int (int k)" using e r1 r0 by simp
  qed
  then show ?thesis by (simp add: k_def)
qed

lemma n_test_lt: "2 \<le> n \<Longrightarrow> (3 * n + 9) div 10 < (n::nat)"
  by (simp add: div_less_iff_less_mult)

lemma n_test_pos: "2 \<le> n \<Longrightarrow> 0 < (3 * n + 9) div (10::nat)"
  by (simp add: div_greater_zero_iff)

lemma n_train_zero: "n < 2 \<Longrightarrow> (n::nat) - (3 * n + 9) div 10 = 0"
proof -
  assume "n < 2"
  then consider "n = 0" | "n = 1" by linarith
  then show ?thesis by cases simp_all
qed

lemma diff_nonzero: "k < n \<Longrightarrow> n - k \<noteq> (0::nat)"
  by simp

lemma validate_shuffle_split_eq:
  "validate_shuffle_split n (3 / 10) =
     (if n < 2 then Inl ValueError else Inr (n - (3 * n + 9) div 10, (3 * n + 9) div 10))"
proof (cases "n < 2")
  case True
  show ?thesis
    unfolding validate_shuffle_split_def Let_def n_test_eq n_train_zero[OF True]
    using True by (simp only: if_True simp_thms)
next
  case False
  then have "(3 * n + 9) div 10 < n" by (simp add: n_test_lt)
  then have "n - (3 * n + 9) div 10 \<noteq> 0" by (rule diff_nonzero)
  then show ?thesis
    unfolding validate_shuffle_split_def Let_def n_test_eq
    using False by (simp only: if_False simp_thms)
qed

lemma split_small: "len df < 2 \<Longrightarrow> train_test_split P df (3 / 10) 42 = Inl ValueError"
  by (simp add: train_test_split_def validate_shuffle_split_eq)

lemma split_ok:
  "2 \<le> len df \<Longrightarrow> train_test_split P df (3 / 10) 42 =
     Inr (safe_indexing df (take (len df - (3 * len df + 9) div 10) (drop ((3 * len df + 9) div 10) (P 42 (len df)))),
          safe_indexing df (take ((3 * len df + 9) div 10) (P 42 (len df))))"
  by (simp add: train_test_split_def validate_shuffle_split_eq iter_indices_def Let_def)

lemma perm_length:
  assumes "distinct p" "set p = {0..<n}"
  shows "length p = n"
  using assms distinct_card[of p] by simp

text \<open>
  The split of a frame of at least two rows, with a generator that returns a
  permutation of \<open>range(n)\<close>: the evaluation frame takes \<open>ceil(0.3 n)\<close> rows, the
  training frame the other rows; the two index lists are disjoint and cover all rows.
\<close>

lemma train_test_split_partitions:
  assumes big: "2 \<le> len df"
    and dist: "distinct (P 42 (len df))"
    and range: "set (P 42 (len df)) = {0..<len df}"
  shows "\<exists>tr te a b. train_test_split P df (3 / 10) 42 = Inr (tr, te)
     \<and> ((a, b) = iter_indices (P 42 (len df)) (len df - (3 * len df + 9) div 10) ((3 * len df + 9) div 10)
     \<and> tr = safe_indexing df a \<and> te = safe_indexing df b
     \<and> set a \<inter> set b = {} \<and> set a \<union> set b = {0..<len df} \<and> distinct a \<and> distinct b
     \<and> len te = (3 * len df + 9) div 10 \<and> len tr = len df - len te \<and> 0 < len tr \<and> 0 < len te
     \<and> mset (rows tr) + mset (rows te) = mset (rows df)
     \<and> (len df = 1000 \<longrightarrow> len tr = 700 \<and> len te = 300))
     \<and> (\<forall>P'. P' 42 (len df) = P 42 (len df) \<longrightarrow> train_test_split P' df (3 / 10) 42 = Inr (tr, te))"
proof -
  define n where "n = len df"
  define p where "p = P 42 n"
  define k where "k = (3 * n + 9) div 10"
  define a where "a = take (n - k) (drop k p)"
  define b where "b = take k p"
  have lp: "length p = n" using perm_length dist range by (simp add: p_def n_def)
  have kn: "k < n" "0 < k" using big n_test_lt[of n] n_test_pos[of n] by (simp_all add: k_def n_def)
  have a_drop: "a = drop k p" by (simp add: a_def lp)
  have pab: "p = b @ a" by (simp add: a_drop b_def)
  have dp: "distinct p" using dist by (simp add: p_def n_def)
  have sp: "set p = {0..<n}" using range by (simp add: p_def n_def)
  have disj: "set a \<inter> set b = {}" using dp pab by auto
  have un: "set a \<union> set b = {0..<n}" using sp pab by auto
  have da: "distinct a" "distinct b" using dp pab by auto
  have lb: "length b = k" using kn lp by (simp add: b_def)
  have la: "length a = n - k" using kn lp by (simp add: a_drop)
  have "mset p = mset_set (set p)" using dp by (simp add: mset_set_set)
  then have "mset p = mset [0..<n]" using sp by simp
  then have "mset (map (\<lambda>i. rows df ! i) p) = mset (map (\<lambda>i. rows df ! i) [0..<n])"
    by (metis mset_map)
  also have "map (\<lambda>i. rows df ! i) [0..<n] = rows df" by (simp add: n_def len_def map_nth)
  finally have "mset (map (\<lambda>i. rows df ! i) a) + mset (map (\<lambda>i. rows df ! i) b) = mset (rows df)"
    by (simp add: pab add.commute)
  then have ms: "mset (rows (safe_indexing df a)) + mset (rows (safe_indexing df b)) = mset (rows df)"
    by (simp add: safe_indexing_def)
  have sp: "train_test_split P' df (3 / 10) 42 = Inr (safe_indexing df a, safe_indexing df b)"
    if "P' 42 (len df) = P 42 (len df)" for P'
    using split_ok[OF big, of P'] that
    unfolding a_def b_def p_def k_def n_def by (simp only:)
  have it: "(a, b) = iter_indices p (n - k) k"
    by (simp add: iter_indices_def a_def b_def)
  have lens: "len (safe_indexing df b) = k" "len (safe_indexing df a) = n - k"
    using la lb by (simp_all add: len_def safe_indexing_def)
  have k1000: "n = 1000 \<longrightarrow> k = 300" by (simp add: k_def)
  have "\<exists>tr te a b. train_test_split P df (3 / 10) 42 = Inr (tr, te)
     \<and> ((a, b) = iter_indices p (n - k) k
     \<and> tr = safe_indexing df a \<and> te = safe_indexing df b
     \<and> set a \<inter> set b = {} \<and> set a \<union> set b = {0..<n} \<and> distinct a \<and> distinct b
     \<and> len te = k \<and> len tr = n - len te \<and> 0 < len tr \<and> 0 < len te
     \<and> mset (rows tr) + mset (rows te) = mset (rows df)
     \<and> (n = 1000 \<longrightarrow> len tr = 700 \<and> len te = 300))
     \<and> (\<forall>P'. P' 42 (len df) = P 42 (len df) \<longrightarrow> train_test_split P' df (3 / 10) 42 = Inr (tr, te))"
    apply (rule exI[of _ "safe_indexing df a"], rule exI[of _ "safe_indexing df b"],
           rule exI[of _ a], rule exI[of _ b])
    using sp it disj un da lens kn ms k1000
    by simp
  then show ?thesis
    unfolding p_def k_def n_def .
qed

subsection \<open>The runs of train_model\<close>

lemma os_path_exists_trace [simp]: "os_path_exists (w\<lparr>trace := t\<rparr>) p = os_path_exists w p"
  by (simp add: os_path_exists_def)

lemma new_events_append [simp]: "new_events w (w'\<lparr>trace := trace w @ evs\<rparr>) = evs"
  by (simp add: new_events_def)

lemma new_events_append_files [simp]:
  "new_events w (w'\<lparr>files := fs, trace := trace w @ evs\<rparr>) = evs"
  by (simp add: new_events_def)

lemma py_open_w_ok:
  "open_error E p = None \<Longrightarrow>
     py_open_w E p w = Inr (w\<lparr>files := (files w)(p \<mapsto> Empty), trace := trace w @ [FileOpen p]\<rparr>)"
  by (simp add: py_open_w_def)

lemma py_open_w_error: "open_error E p = Some e \<Longrightarrow> py_open_w E p w = Inl e"
  by (simp add: py_open_w_def)

text \<open>The run up to the split (lines 49-77), when the file exists and has 27 columns.\<close>

lemma train_model_missing_file:
  assumes "\<not> os_path_exists w dp"
  shows "\<exists>w'. train_model E dp mp mdp w = (Returned, w') \<and> files w' = files w
     \<and> trace w' = trace w @ new_events w w'
     \<and> new_events w w' =
        [Stdout ''--- ML Training Pipeline Started ---'',
         Stdout (''Loading feature data from: '' @ dp),
         Stdout ([CHR 0x0A] @ ''FATAL ERROR: Data file not found at '' @ [CHR 0x27] @ dp @ [CHR 0x27] @ ''.''),
         Stdout (''Please run the C++ application with '' @ [CHR 0x27]
                   @ ''ml_data_collection_enabled = true'' @ [CHR 0x27] @ '' to generate it first.'')]"
  using assms by (simp add: train_model_def Let_def py_print_def)

lemma train_model_read_error:
  assumes "os_path_exists w dp" "read_csv E (the (files w dp)) = Inl e"
  shows "\<exists>w'. train_model E dp mp mdp w = (Raised ReadCsv e, w') \<and> files w' = files w
     \<and> trace w' = trace w @ new_events w w'
     \<and> file_events (new_events w w') = []"
  using assms by (simp add: train_model_def Let_def py_print_def file_events_def)

lemma train_model_schema_mismatch:
  assumes "os_path_exists w dp" "read_csv E (the (files w dp)) = Inr df"
    "shape1 df \<noteq> length FEATURE_NAMES"
  shows "\<exists>w'. train_model E dp mp mdp w = (Returned, w') \<and> files w' = files w
     \<and> trace w' = trace w @ new_events w w'
     \<and> new_events w w' =
        [Stdout ''--- ML Training Pipeline Started ---'',
         Stdout (''Loading feature data from: '' @ dp),
         Stdout ([CHR 0x0A] @ ''FATAL ERROR: Mismatch in feature count!''),
         Stdout (''  Expected '' @ str (length FEATURE_NAMES)
                   @ '' features based on script, but found '' @ str (shape1 df) @ '' in CSV.''),
         Stdout ''  Check if C++ Feature enum and Python FEATURE_NAMES list are in sync.'']"
  using assms by (simp add: train_model_def Let_def py_print_def)

lemma train_model_split_error:
  assumes "os_path_exists w dp" "read_csv E (the (files w dp)) = Inr df"
    "shape1 df = length FEATURE_NAMES" "split77 E df = Inl e"
  shows "\<exists>w'. train_model E dp mp mdp w = (Raised TrainTestSplit e, w') \<and> files w' = files w
     \<and> trace w' = trace w @ new_events w w'
     \<and> file_events (new_events w w') = []
     \<and> (Stdout ''Warning: Dataset is very small. Model quality may be poor.'' \<in> set (new_events w w'))
         = (len (cleaned df) < 200)"
  using assms
  by (simp add: train_model_def Let_def py_print_def file_events_def split77_def cleaned_def)

lemma train_model_fit_error:
  assumes "os_path_exists w dp" "read_csv E (the (files w dp)) = Inr df"
    "shape1 df = length FEATURE_NAMES" "split77 E df = Inr (tr, te)"
    "fit E forest_params tr = Inl e"
  shows "\<exists>w'. train_model E dp mp mdp w = (Raised Fit e, w') \<and> files w' = files w
     \<and> trace w' = trace w @ new_events w w'
     \<and> file_events (new_events w w') = []"
  using assms
  by (simp add: train_model_def Let_def py_print_def file_events_def split77_def cleaned_def)

lemma train_model_score_error:
  assumes "os_path_exists w dp" "read_csv E (the (files w dp)) = Inr df"
    "shape1 df = length FEATURE_NAMES" "split77 E df = Inr (tr, te)"
    "fit E forest_params tr = Inr m" "score_samples E m te = Inl e"
  shows "\<exists>w'. train_model E dp mp mdp w = (Raised ScoreSamples e, w') \<and> files w' = files w
     \<and> trace w' = trace w @ new_events w w'
     \<and> file_events (new_events w w') = []"
  using assms
  by (simp add: train_model_def Let_def py_print_def file_events_def split77_def cleaned_def)

lemma train_model_convert_error:
  assumes "os_path_exists w dp" "read_csv E (the (files w dp)) = Inr df"
    "shape1 df = length FEATURE_NAMES" "split77 E df = Inr (tr, te)"
    "fit E forest_params tr = Inr m" "score_samples E m te = Inr ss" "to_onnx E m = Inl e"
  shows "\<exists>w'. train_model E dp mp mdp w = (Raised ConvertSklearn e, w') \<and> files w' = files w
     \<and> trace w' = trace w @ new_events w w'
     \<and> file_events (new_events w w') = []"
  using assms
  by (simp add: train_model_def Let_def py_print_def file_events_def split77_def cleaned_def
        convert_sklearn_def)

lemma train_model_open_model_error:
  assumes "os_path_exists w dp" "read_csv E (the (files w dp)) = Inr df"
    "shape1 df = length FEATURE_NAMES" "split77 E df = Inr (tr, te)"
    "fit E forest_params tr = Inr m" "score_samples E m te = Inr ss" "to_onnx E m = Inr g"
    "open_error E mp = Some e"
  shows "\<exists>w'. train_model E dp mp mdp w = (Raised OpenModel e, w') \<and> files w' = files w
     \<and> trace w' = trace w @ new_events w w'
     \<and> file_events (new_events w w') = []"
  using assms
  by (simp add: train_model_def Let_def py_print_def file_events_def split77_def cleaned_def
        convert_sklearn_def py_open_w_error)

lemma train_model_open_metadata_error:
  assumes "os_path_exists w dp" "read_csv E (the (files w dp)) = Inr df"
    "shape1 df = length FEATURE_NAMES" "split77 E df = Inr (tr, te)"
    "fit E forest_params tr = Inr m" "score_samples E m te = Inr ss" "to_onnx E m = Inr g"
    "open_error E mp = None" "open_error E mdp = Some e"
  shows "\<exists>w'. train_model E dp mp mdp w = (Raised OpenMetadata e, w')
     \<and> files w' = (files w)(mp \<mapsto> SerializeToString
          \<lparr>graph_input = [(''float_input'', FloatTensorType [None, Some (length FEATURE_NAMES)])],
           opset = 13, graph_nodes = g\<rparr>)
     \<and> trace w' = trace w @ new_events w w'
     \<and> file_events (new_events w w') =
          [FileOpen mp,
           FileWrite mp (SerializeToString
             \<lparr>graph_input = [(''float_input'', FloatTensorType [None, Some (length FEATURE_NAMES)])],
              opset = 13, graph_nodes = g\<rparr>)]"
  using assms
  by (simp add: train_model_def Let_def py_print_def f_write_def file_events_def split77_def
        cleaned_def convert_sklearn_def py_open_w_error py_open_w_ok)

lemma train_model_success:
  assumes "os_path_exists w dp" "read_csv E (the (files w dp)) = Inr df"
    "shape1 df = length FEATURE_NAMES" "split77 E df = Inr (tr, te)"
    "fit E forest_params tr = Inr m" "score_samples E m te = Inr ss" "to_onnx E m = Inr g"
    "open_error E mp = None" "open_error E mdp = None"
  shows "\<exists>w'. train_model E dp mp mdp w = (Returned, w')
     \<and> files w' = (files w)(mp \<mapsto> SerializeToString
          \<lparr>graph_input = [(''float_input'', FloatTensorType [None, Some (length FEATURE_NAMES)])],
           opset = 13, graph_nodes = g\<rparr>,
          mdp \<mapsto> JsonDump (metadata E dp tr (mean E ss)))
     \<and> trace w' = trace w @ new_events w w'
     \<and> file_events (new_events w w') =
          [FileOpen mp,
           FileWrite mp (SerializeToString
             \<lparr>graph_input = [(''float_input'', FloatTensorType [None, Some (length FEATURE_NAMES)])],
              opset = 13, graph_nodes = g\<rparr>),
           FileOpen mdp,
           FileWrite mdp (JsonDump (metadata E dp tr (mean E ss)))]
     \<and> (Stdout ''Warning: Dataset is very small. Model quality may be poor.'' \<in> set (new_events w w'))
         = (len (cleaned df) < 200)
     \<and> last (new_events w w') = Stdout ''--- ML Training Pipeline Finished ---''"
  using assms
  by (simp add: train_model_def Let_def py_print_def f_write_def file_events_def split77_def
        cleaned_def convert_sklearn_def py_open_w_ok)

text \<open>Every run takes one of three shapes.\<close>

lemma train_model_run:
  assumes run: "train_model E dp mp mdp w = (r, w')"
  shows "trace w' = trace w @ new_events w w' \<and>
    ((files w' = files w \<and> file_events (new_events w w') = []
        \<and> (r = Returned \<longrightarrow> \<not> os_path_exists w dp
              \<or> (\<exists>df. read_csv E (the (files w dp)) = Inr df \<and> shape1 df \<noteq> length FEATURE_NAMES))
        \<and> (\<forall>e. r \<noteq> Raised OpenMetadata e))
     \<or> (\<exists>df tr te m ss g e. os_path_exists w dp \<and> read_csv E (the (files w dp)) = Inr df
          \<and> shape1 df = length FEATURE_NAMES \<and> split77 E df = Inr (tr, te)
          \<and> fit E forest_params tr = Inr m \<and> score_samples E m te = Inr ss \<and> to_onnx E m = Inr g
          \<and> r = Raised OpenMetadata e
          \<and> file_events (new_events w w') =
               [FileOpen mp,
                FileWrite mp (SerializeToString
                  \<lparr>graph_input = [(''float_input'', FloatTensorType [None, Some (length FEATURE_NAMES)])],
                   opset = 13, graph_nodes = g\<rparr>)]
          \<and> files w' = (files w)(mp \<mapsto> SerializeToString
                  \<lparr>graph_input = [(''float_input'', FloatTensorType [None, Some (length FEATURE_NAMES)])],
                   opset = 13, graph_nodes = g\<rparr>))
     \<or> (\<exists>df tr te m ss g. os_path_exists w dp \<and> read_csv E (the (files w dp)) = Inr df
          \<and> shape1 df = length FEATURE_NAMES \<and> split77 E df = Inr (tr, te)
          \<and> fit E forest_params tr = Inr m \<and> score_samples E m te = Inr ss \<and> to_onnx E m = Inr g
          \<and> r = Returned
          \<and> file_events (new_events w w') =
               [FileOpen mp,
                FileWrite mp (SerializeToString
                  \<lparr>graph_input = [(''float_input'', FloatTensorType [None, Some (length FEATURE_NAMES)])],
                   opset = 13, graph_nodes = g\<rparr>),
                FileOpen mdp,
                FileWrite mdp (JsonDump (metadata E dp tr (mean E ss)))]
          \<and> files w' = (files w)(mp \<mapsto> SerializeToString
                  \<lparr>graph_input = [(''float_input'', FloatTensorType [None, Some (length FEATURE_NAMES)])],
                   opset = 13, graph_nodes = g\<rparr>,
                  mdp \<mapsto> JsonDump (metadata E dp tr (mean E ss)))))"
    (is "?ext \<and> (?halt \<or> ?partial \<or> ?done)")
proof (cases "os_path_exists w dp")
  case False
  from train_model_missing_file[where E=E and dp=dp and mp=mp and mdp=mdp, OF False] run
  have "?ext \<and> ?halt" using False by (auto simp: file_events_def)
  then show ?thesis by blast
next
  case ex: True
  show ?thesis
  proof (cases "read_csv E (the (files w dp))")
    case (Inl e)
    from train_model_read_error[where E=E and dp=dp and mp=mp and mdp=mdp, OF ex Inl] run
    have "?ext \<and> ?halt" by auto
    then show ?thesis by blast
  next
    case rd: (Inr df)
    show ?thesis
    proof (cases "shape1 df = length FEATURE_NAMES")
      case False
      from train_model_schema_mismatch[where E=E and dp=dp and mp=mp and mdp=mdp, OF ex rd False] run
      have "?ext \<and> ?halt" using rd False by (auto simp: file_events_def)
      then show ?thesis by blast
    next
      case cols: True
      show ?thesis
      proof (cases "split77 E df")
        case (Inl e)
        from train_model_split_error[where E=E and dp=dp and mp=mp and mdp=mdp, OF ex rd cols Inl] run
        have "?ext \<and> ?halt" by auto
        then show ?thesis by blast
      next
        case (Inr p)
        then obtain tr te where sp: "split77 E df = Inr (tr, te)" by (cases p) auto
        show ?thesis
        proof (cases "fit E forest_params tr")
          case (Inl e)
          from train_model_fit_error[where E=E and dp=dp and mp=mp and mdp=mdp, OF ex rd cols sp Inl] run
          have "?ext \<and> ?halt" by auto
          then show ?thesis by blast
        next
          case ft: (Inr m)
          show ?thesis
          proof (cases "score_samples E m te")
            case (Inl e)
            from train_model_score_error[where E=E and dp=dp and mp=mp and mdp=mdp, OF ex rd cols sp ft Inl] run
            have "?ext \<and> ?halt" by auto
            then show ?thesis by blast
          next
            case sc: (Inr ss)
            show ?thesis
            proof (cases "to_onnx E m")
              case (Inl e)
              from train_model_convert_error[where E=E and dp=dp and mp=mp and mdp=mdp, OF ex rd cols sp ft sc Inl] run
              have "?ext \<and> ?halt" by auto
              then show ?thesis by blast
            next
              case cv: (Inr g)
              show ?thesis
              proof (cases "open_error E mp")
                case (Some e)
                from train_model_open_model_error[where E=E and dp=dp and mp=mp and mdp=mdp, OF ex rd cols sp ft sc cv Some] run
                have "?ext \<and> ?halt" by auto
                then show ?thesis by blast
              next
                case o1: None
                show ?thesis
                proof (cases "open_error E mdp")
                  case (Some e)
                  from train_model_open_metadata_error[where E=E and dp=dp and mp=mp and mdp=mdp, OF ex rd cols sp ft sc cv o1 Some] run
                  have a: "r = Raised OpenMetadata e" and b: "?ext"
                    and c: "file_events (new_events w w') =
                      [FileOpen mp,
                       FileWrite mp (SerializeToString
                         \<lparr>graph_input = [(''float_input'', FloatTensorType [None, Some (length FEATURE_NAMES)])],
                          opset = 13, graph_nodes = g\<rparr>)]"
                    and d: "files w' = (files w)(mp \<mapsto> SerializeToString
                         \<lparr>graph_input = [(''float_input'', FloatTensorType [None, Some (length FEATURE_NAMES)])],
                          opset = 13, graph_nodes = g\<rparr>)"
                    by auto
                  have "?partial" using ex rd cols sp ft sc cv a c d by blast
                  with b show ?thesis by blast
                next
                  case o2: None
                  from train_model_success[where E=E and dp=dp and mp=mp and mdp=mdp, OF ex rd cols sp ft sc cv o1 o2] run
                  have a: "r = Returned" and b: "?ext"
                    and c: "file_events (new_events w w') =
                      [FileOpen mp,
                       FileWrite mp (SerializeToString
                         \<lparr>graph_input = [(''float_input'', FloatTensorType [None, Some (length FEATURE_NAMES)])],
                          opset = 13, graph_nodes = g\<rparr>),
                       FileOpen mdp,
                       FileWrite mdp (JsonDump (metadata E dp tr (mean E ss)))]"
                    and d: "files w' = (files w)(mp \<mapsto> SerializeToString
                         \<lparr>graph_input = [(''float_input'', FloatTensorType [None, Some (length FEATURE_NAMES)])],
                          opset = 13, graph_nodes = g\<rparr>,
                         mdp \<mapsto> JsonDump (metadata E dp tr (mean E ss)))"
                    by auto
                  have "?done" using ex rd cols sp ft sc cv a c d by blast
                  with b show ?thesis by blast
                qed
              qed
            qed
          qed
        qed
      qed
    qed
  qed
qed

text \<open>
  What every run that passes the two validations prints (lines 68-79), and that the
  split of line 77 decides whether it goes on.
\<close>

lemma train_model_report:
  assumes ex: "os_path_exists w dp" and rd: "read_csv E (the (files w dp)) = Inr df"
    and cols: "shape1 df = length FEATURE_NAMES"
  shows "take 4 (new_events w (snd (train_model E dp mp mdp w))) =
        [Stdout ''--- ML Training Pipeline Started ---'',
         Stdout (''Loading feature data from: '' @ dp),
         Stdout (''Loaded '' @ str (len df) @ '' raw samples.''),
         Stdout (''Using '' @ str (len (cleaned df)) @ '' samples after cleaning NaN/inf values.'')]
     \<and> (Stdout ''Warning: Dataset is very small. Model quality may be poor.''
           \<in> set (new_events w (snd (train_model E dp mp mdp w)))) = (len (cleaned df) < 200)
     \<and> (\<forall>e. split77 E df = Inl e \<longrightarrow> fst (train_model E dp mp mdp w) = Raised TrainTestSplit e)
     \<and> (\<forall>tr te. split77 E df = Inr (tr, te) \<longrightarrow>
          Stdout (''Training IsolationForest model on '' @ str (len tr) @ '' samples...'')
            \<in> set (new_events w (snd (train_model E dp mp mdp w)))
          \<and> (\<forall>e. fst (train_model E dp mp mdp w) \<noteq> Raised TrainTestSplit e))"
proof (cases "split77 E df")
  case (Inl e)
  then show ?thesis using ex rd cols
    by (simp add: train_model_def Let_def py_print_def split77_def cleaned_def len_def)
next
  case (Inr p)
  then obtain tr te where sp: "split77 E df = Inr (tr, te)" by (cases p) simp
  show ?thesis
  proof (cases "fit E forest_params tr")
    case (Inl e)
    then show ?thesis using ex rd cols sp
      by (simp add: train_model_def Let_def py_print_def split77_def cleaned_def len_def)
  next
    case (Inr m)
    note ft = this
    show ?thesis
    proof (cases "score_samples E m te")
      case (Inl e)
      then show ?thesis using ex rd cols sp ft
        by (simp add: train_model_def Let_def py_print_def split77_def cleaned_def len_def)
    next
      case (Inr ss)
      note sc = this
      show ?thesis
      proof (cases "to_onnx E m")
        case (Inl e)
        then show ?thesis using ex rd cols sp ft sc
          by (simp add: train_model_def Let_def py_print_def split77_def cleaned_def len_def
                convert_sklearn_def)
      next
        case (Inr g)
        note cv = this
        show ?thesis
        proof (cases "open_error E mp")
          case (Some e)
          then show ?thesis using ex rd cols sp ft sc cv
            by (simp add: train_model_def Let_def py_print_def split77_def cleaned_def len_def
                convert_sklearn_def py_open_w_error)
        next
          case None
          note o1 = this
          show ?thesis
          proof (cases "open_error E mdp")
            case (Some e)
            then show ?thesis using ex rd cols sp ft sc cv o1
              by (simp add: train_model_def Let_def py_print_def f_write_def split77_def
                    cleaned_def len_def convert_sklearn_def py_open_w_error py_open_w_ok)
          next
            case None
            then show ?thesis using ex rd cols sp ft sc cv o1
              by (simp add: train_model_def Let_def py_print_def f_write_def split77_def
                    cleaned_def len_def convert_sklearn_def py_open_w_ok)
          qed
        qed
      qed
    qed
  qed
qed


subsection \<open>Validation errors (lines 51-65)\<close>

lemma str_27: "str 27 = ''27''"
  by (simp add: str.simps)

lemma example_world_exists: "os_path_exists example_world ''data.csv''"
  by (simp add: os_path_exists_def example_world_def)

lemma example_env_read:
  "read_csv (example_env cols rs) c = Inr \<lparr>columns = cols, rows = rs\<rparr>"
  by (simp add: example_env_def)

lemma uncaught_Returned:
  "fst res = Returned \<Longrightarrow> fst (uncaught res) = 0 \<and> fst (snd (uncaught res)) = []"
  by (cases res) (simp add: uncaught_def)

lemma uncaught_Raised: "uncaught (Raised s e, w) = (1, [Traceback s e], w)"
  by (simp add: uncaught_def)

text \<open>
  C1. The schema has 27 names. When the data file exists and parses to a data frame
  whose column count is not 27, \<^verbatim>\<open>train_model\<close> prints the feature-count
  mismatch diagnostic and returns: it opens and writes no file, and the files are as
  they were.
\<close>

theorem schema_mismatch_halts:
  assumes "os_path_exists w dp" "read_csv E (the (files w dp)) = Inr df"
    "shape1 df \<noteq> length FEATURE_NAMES"
  shows "length FEATURE_NAMES = 27
     \<and> (\<exists>w'. train_model E dp mp mdp w = (Returned, w') \<and> files w' = files w
          \<and> file_events (new_events w w') = []
          \<and> new_events w w' =
              [Stdout ''--- ML Training Pipeline Started ---'',
               Stdout (''Loading feature data from: '' @ dp),
               Stdout ([CHR 0x0A] @ ''FATAL ERROR: Mismatch in feature count!''),
               Stdout (''  Expected 27 features based on script, but found '' @ str (shape1 df)
                         @ '' in CSV.''),
               Stdout ''  Check if C++ Feature enum and Python FEATURE_NAMES list are in sync.''])"
proof -
  from train_model_schema_mismatch[where mp=mp and mdp=mdp, OF assms]
  obtain w' where "train_model E dp mp mdp w = (Returned, w')" "files w' = files w"
    and ev: "new_events w w' =
        [Stdout ''--- ML Training Pipeline Started ---'',
         Stdout (''Loading feature data from: '' @ dp),
         Stdout ([CHR 0x0A] @ ''FATAL ERROR: Mismatch in feature count!''),
         Stdout (''  Expected '' @ str (length FEATURE_NAMES)
                   @ '' features based on script, but found '' @ str (shape1 df) @ '' in CSV.''),
         Stdout ''  Check if C++ Feature enum and Python FEATURE_NAMES list are in sync.'']"
    by blast
  moreover have "file_events (new_events w w') = []" by (simp add: ev file_events_def)
  moreover note len_FEATURE_NAMES
  ultimately show ?thesis by (simp add: str_27)
qed

theorem schema_mismatch_halts_witness:
  "os_path_exists example_world ''data.csv''
   \<and> shape1 \<lparr>columns = cols26, rows = [good_row]\<rparr> = 26
   \<and> fst (train_model (example_env cols26 [good_row]) ''data.csv'' ''m.onnx'' ''m.json'' example_world)
       = Returned
   \<and> files (snd (train_model (example_env cols26 [good_row]) ''data.csv'' ''m.onnx'' ''m.json''
                   example_world)) = files example_world
   \<and> file_events (new_events example_world
        (snd (train_model (example_env cols26 [good_row]) ''data.csv'' ''m.onnx'' ''m.json''
                example_world))) = []"
proof -
  have s: "shape1 \<lparr>columns = cols26, rows = [good_row]\<rparr> = 26"
    by (simp add: shape1_def cols26_def)
  then have ne: "shape1 \<lparr>columns = cols26, rows = [good_row]\<rparr> \<noteq> length FEATURE_NAMES"
    by (simp add: len_FEATURE_NAMES)
  from schema_mismatch_halts[OF example_world_exists example_env_read ne, of "''m.onnx''" "''m.json''"]
  show ?thesis using example_world_exists s by auto
qed

text \<open>
  C10. On the missing-file path and on the schema-mismatch path \<^verbatim>\<open>train_model\<close>
  prints its diagnostic (the lines of 52-55, or of 60-64, with the line that starts
  with FATAL ERROR third), then returns (None) and raises nothing, so a caller that
  does not catch anything goes on: the exit status is 0 and no traceback is printed;
  the same holds for the script itself, which calls it on its three fixed paths.
\<close>

theorem validation_errors_return_normally:
  "(\<not> os_path_exists w dp \<longrightarrow>
        fst (train_model E dp mp mdp w) = Returned
      \<and> fst (uncaught (train_model E dp mp mdp w)) = 0
      \<and> fst (snd (uncaught (train_model E dp mp mdp w))) = []
      \<and> new_events w (snd (train_model E dp mp mdp w)) =
          [Stdout ''--- ML Training Pipeline Started ---'',
           Stdout (''Loading feature data from: '' @ dp),
           Stdout ([CHR 0x0A] @ ''FATAL ERROR: Data file not found at '' @ [CHR 0x27] @ dp
                     @ [CHR 0x27] @ ''.''),
           Stdout (''Please run the C++ application with '' @ [CHR 0x27]
                     @ ''ml_data_collection_enabled = true'' @ [CHR 0x27]
                     @ '' to generate it first.'')])
   \<and> (\<forall>df. read_csv E (the (files w dp)) = Inr df \<and> shape1 df \<noteq> length FEATURE_NAMES \<longrightarrow>
        fst (train_model E dp mp mdp w) = Returned
      \<and> fst (uncaught (train_model E dp mp mdp w)) = 0
      \<and> fst (snd (uncaught (train_model E dp mp mdp w))) = []
      \<and> (os_path_exists w dp \<longrightarrow>
           new_events w (snd (train_model E dp mp mdp w)) =
             [Stdout ''--- ML Training Pipeline Started ---'',
              Stdout (''Loading feature data from: '' @ dp),
              Stdout ([CHR 0x0A] @ ''FATAL ERROR: Mismatch in feature count!''),
              Stdout (''  Expected 27 features based on script, but found '' @ str (shape1 df)
                        @ '' in CSV.''),
              Stdout ''  Check if C++ Feature enum and Python FEATURE_NAMES list are in sync.'']))
   \<and> ((\<not> os_path_exists w DATA_PATH
      \<or> (\<exists>df. read_csv E (the (files w DATA_PATH)) = Inr df \<and> shape1 df \<noteq> length FEATURE_NAMES))
     \<longrightarrow> fst (run_script E w) = 0 \<and> fst (snd (run_script E w)) = []
         \<and> length (new_events w (snd (snd (run_script E w)))) \<in> {4, 5}
         \<and> is_fatal_line (new_events w (snd (snd (run_script E w))) ! 2)
         \<and> (\<forall>ev \<in> set (new_events w (snd (snd (run_script E w)))). \<not> is_file_event ev))"
proof -
  let ?missing = "\<lambda>dp. [Stdout ''--- ML Training Pipeline Started ---'',
           Stdout (''Loading feature data from: '' @ dp),
           Stdout ([CHR 0x0A] @ ''FATAL ERROR: Data file not found at '' @ [CHR 0x27] @ dp
                     @ [CHR 0x27] @ ''.''),
           Stdout (''Please run the C++ application with '' @ [CHR 0x27]
                     @ ''ml_data_collection_enabled = true'' @ [CHR 0x27]
                     @ '' to generate it first.'')]"
  let ?mismatch = "\<lambda>dp df. [Stdout ''--- ML Training Pipeline Started ---'',
              Stdout (''Loading feature data from: '' @ dp),
              Stdout ([CHR 0x0A] @ ''FATAL ERROR: Mismatch in feature count!''),
              Stdout (''  Expected 27 features based on script, but found '' @ str (shape1 df)
                        @ '' in CSV.''),
              Stdout ''  Check if C++ Feature enum and Python FEATURE_NAMES list are in sync.'']
             "
  have miss: "fst (train_model E dp mp mdp w) = Returned
      \<and> new_events w (snd (train_model E dp mp mdp w)) = ?missing dp"
    if "\<not> os_path_exists w dp" for dp mp mdp
    using train_model_missing_file[where E=E and mp=mp and mdp=mdp, OF that] by auto
  have mism: "fst (train_model E dp mp mdp w) = Returned
      \<and> new_events w (snd (train_model E dp mp mdp w)) = ?mismatch dp df"
    if "os_path_exists w dp" "read_csv E (the (files w dp)) = Inr df"
      "shape1 df \<noteq> length FEATURE_NAMES" for dp mp mdp df
    using train_model_schema_mismatch[where mp=mp and mdp=mdp, OF that]
    by (auto simp: len_FEATURE_NAMES str_27)
  have unc: "fst (uncaught (train_model E dp mp mdp w)) = 0
      \<and> fst (snd (uncaught (train_model E dp mp mdp w))) = []"
    if "fst (train_model E dp mp mdp w) = Returned" for dp mp mdp
    using uncaught_Returned[OF that] .
  have c1: "fst (train_model E dp mp mdp w) = Returned
      \<and> fst (uncaught (train_model E dp mp mdp w)) = 0
      \<and> fst (snd (uncaught (train_model E dp mp mdp w))) = []
      \<and> new_events w (snd (train_model E dp mp mdp w)) = ?missing dp"
    if "\<not> os_path_exists w dp"
    using miss[OF that, of mp mdp] unc[of dp mp mdp] by blast
  have c2: "fst (train_model E dp mp mdp w) = Returned
      \<and> fst (uncaught (train_model E dp mp mdp w)) = 0
      \<and> fst (snd (uncaught (train_model E dp mp mdp w))) = []
      \<and> (os_path_exists w dp \<longrightarrow>
           new_events w (snd (train_model E dp mp mdp w)) = ?mismatch dp df)"
    if "read_csv E (the (files w dp)) = Inr df \<and> shape1 df \<noteq> length FEATURE_NAMES" for df
  proof (cases "os_path_exists w dp")
    case True
    from mism[OF True, of df mp mdp] that unc[of dp mp mdp] show ?thesis by blast
  next
    case False
    from miss[OF False, of mp mdp] unc[of dp mp mdp] False show ?thesis by blast
  qed
  have c3: "fst (run_script E w) = 0 \<and> fst (snd (run_script E w)) = []
         \<and> length (new_events w (snd (snd (run_script E w)))) \<in> {4, 5}
         \<and> is_fatal_line (new_events w (snd (snd (run_script E w))) ! 2)
         \<and> (\<forall>ev \<in> set (new_events w (snd (snd (run_script E w)))). \<not> is_file_event ev)"
    if h: "\<not> os_path_exists w DATA_PATH
      \<or> (\<exists>df. read_csv E (the (files w DATA_PATH)) = Inr df \<and> shape1 df \<noteq> length FEATURE_NAMES)"
  proof -
    let ?tm = "train_model E DATA_PATH MODEL_PATH METADATA_PATH w"
    have ev: "fst ?tm = Returned \<and> length (new_events w (snd ?tm)) \<in> {4, 5}
        \<and> is_fatal_line (new_events w (snd ?tm) ! 2)
        \<and> (\<forall>ev \<in> set (new_events w (snd ?tm)). \<not> is_file_event ev)"
    proof (cases "os_path_exists w DATA_PATH")
      case False
      from miss[OF False, of MODEL_PATH METADATA_PATH] show ?thesis by simp
    next
      case True
      with h obtain df where "read_csv E (the (files w DATA_PATH)) = Inr df"
        "shape1 df \<noteq> length FEATURE_NAMES" by blast
      from mism[OF True this, of MODEL_PATH METADATA_PATH] show ?thesis by simp
    qed
    then have "fst ?tm = Returned" by blast
    then obtain w' where tm: "?tm = (Returned, w')" by (cases ?tm) simp
    then have "run_script E w = (0, [], w')" by (simp add: run_script_def uncaught_def)
    with ev tm show ?thesis by simp
  qed
  show ?thesis using c1 c2 c3 by blast
qed

theorem validation_errors_return_normally_witness:
  "\<not> os_path_exists (example_world\<lparr>files := Map.empty\<rparr>) DATA_PATH
   \<and> fst (train_model (example_env cols27 [good_row]) DATA_PATH MODEL_PATH METADATA_PATH
           (example_world\<lparr>files := Map.empty\<rparr>)) = Returned
   \<and> new_events (example_world\<lparr>files := Map.empty\<rparr>)
       (snd (train_model (example_env cols27 [good_row]) DATA_PATH MODEL_PATH METADATA_PATH
               (example_world\<lparr>files := Map.empty\<rparr>))) ! 2
       = Stdout ([CHR 0x0A] @ ''FATAL ERROR: Data file not found at '' @ [CHR 0x27]
                   @ ''data/training_features.csv'' @ [CHR 0x27] @ ''.'')
   \<and> fst (run_script (example_env cols27 [good_row]) (example_world\<lparr>files := Map.empty\<rparr>)) = 0
   \<and> os_path_exists example_world ''data.csv''
   \<and> shape1 \<lparr>columns = cols26, rows = [good_row]\<rparr> = 26
   \<and> fst (uncaught (train_model (example_env cols26 [good_row]) ''data.csv'' ''m.onnx'' ''m.json''
                    example_world)) = 0
   \<and> new_events example_world
       (snd (train_model (example_env cols26 [good_row]) ''data.csv'' ''m.onnx'' ''m.json''
               example_world)) =
       [Stdout ''--- ML Training Pipeline Started ---'',
        Stdout ''Loading feature data from: data.csv'',
        Stdout ([CHR 0x0A] @ ''FATAL ERROR: Mismatch in feature count!''),
        Stdout ''  Expected 27 features based on script, but found 26 in CSV.'',
        Stdout ''  Check if C++ Feature enum and Python FEATURE_NAMES list are in sync.'']"
proof -
  have m: "\<not> os_path_exists (example_world\<lparr>files := Map.empty\<rparr>) DATA_PATH"
    by (simp add: os_path_exists_def)
  have s: "shape1 \<lparr>columns = cols26, rows = [good_row]\<rparr> = 26"
    by (simp add: shape1_def cols26_def)
  then have ne: "read_csv (example_env cols26 [good_row]) (the (files example_world ''data.csv''))
            = Inr \<lparr>columns = cols26, rows = [good_row]\<rparr>
        \<and> shape1 \<lparr>columns = cols26, rows = [good_row]\<rparr> \<noteq> length FEATURE_NAMES"
    by (simp add: example_env_read len_FEATURE_NAMES)
  have s26: "str 26 = ''26''" by (simp add: str.simps)
  from validation_errors_return_normally
         [of "example_world\<lparr>files := Map.empty\<rparr>" DATA_PATH "example_env cols27 [good_row]"
             MODEL_PATH METADATA_PATH]
       m
  have a: "fst (train_model (example_env cols27 [good_row]) DATA_PATH MODEL_PATH METADATA_PATH
           (example_world\<lparr>files := Map.empty\<rparr>)) = Returned
     \<and> new_events (example_world\<lparr>files := Map.empty\<rparr>)
       (snd (train_model (example_env cols27 [good_row]) DATA_PATH MODEL_PATH METADATA_PATH
               (example_world\<lparr>files := Map.empty\<rparr>))) ! 2
       = Stdout ([CHR 0x0A] @ ''FATAL ERROR: Data file not found at '' @ [CHR 0x27]
                   @ ''data/training_features.csv'' @ [CHR 0x27] @ ''.'')
     \<and> fst (run_script (example_env cols27 [good_row]) (example_world\<lparr>files := Map.empty\<rparr>)) = 0"
    by (simp add: DATA_PATH_def)
  from validation_errors_return_normally
         [of example_world "''data.csv''" "example_env cols26 [good_row]" "''m.onnx''" "''m.json''"]
       ne example_world_exists
  have b: "fst (uncaught (train_model (example_env cols26 [good_row]) ''data.csv'' ''m.onnx'' ''m.json''
                    example_world)) = 0
     \<and> new_events example_world
       (snd (train_model (example_env cols26 [good_row]) ''data.csv'' ''m.onnx'' ''m.json''
               example_world)) =
       [Stdout ''--- ML Training Pipeline Started ---'',
        Stdout ''Loading feature data from: data.csv'',
        Stdout ([CHR 0x0A] @ ''FATAL ERROR: Mismatch in feature count!''),
        Stdout ''  Expected 27 features based on script, but found 26 in CSV.'',
        Stdout ''  Check if C++ Feature enum and Python FEATURE_NAMES list are in sync.'']"
    by (simp add: s s26)
  show ?thesis using m s a b example_world_exists by blast
qed

subsection \<open>Fatal errors write nothing\<close>

lemma cleaned_good_rows:
  "cleaned \<lparr>columns = cols, rows = replicate n good_row\<rparr>
     = \<lparr>columns = map StrLabel FEATURE_NAMES, rows = replicate n good_row\<rparr>"
  by (simp add: cleaned_def dropna_def replace_def good_row_def)

lemma shape1_cols27: "shape1 \<lparr>columns = cols27, rows = rs\<rparr> = length FEATURE_NAMES"
  by (simp add: shape1_def cols27_def len_FEATURE_NAMES)

lemma split77_ok:
  assumes "2 \<le> len (cleaned df)"
  shows "\<exists>tr te. split77 E df = Inr (tr, te)"
  using split_ok[OF assms, of "permutation E"] by (simp add: split77_def)

lemma split77_small: "len (cleaned df) < 2 \<Longrightarrow> split77 E df = Inl ValueError"
  by (simp add: split77_def split_small)

lemma n_train_zero_iff: "((n::nat) - (3 * n + 9) div 10 = 0) = (n < 2)"
proof (cases "n < 2")
  case True
  then show ?thesis by (simp only: n_train_zero simp_thms)
next
  case False
  then have "(3 * n + 9) div 10 < n" by (simp add: n_test_lt)
  then have "n - (3 * n + 9) div 10 \<noteq> 0" by (rule diff_nonzero)
  then show ?thesis using False by (simp only: simp_thms)
qed

text \<open>
  C5. A run that ends on the missing-file or the schema-mismatch diagnostic, or that an
  exception leaves at any call before the metadata file is opened (parsing, splitting,
  fitting, scoring, converting to ONNX, opening the model file), has opened and written
  no file: the files are as they were before the run. A diagnostic is produced: a
  printed line that starts with FATAL ERROR, or the traceback of the exception.
\<close>

theorem no_output_on_fatal_error:
  assumes run: "train_model E dp mp mdp w = (r, w')"
    and fatal: "\<not> os_path_exists w dp
      \<or> (\<exists>df. read_csv E (the (files w dp)) = Inr df \<and> shape1 df \<noteq> length FEATURE_NAMES)
      \<or> (\<exists>s e. r = Raised s e \<and> s \<noteq> OpenMetadata)"
  shows "files w' = files w \<and> file_events (new_events w w') = []
     \<and> (list_ex is_fatal_line (new_events w w') \<or> fst (snd (uncaught (r, w'))) \<noteq> [])"
proof -
  consider (missing) "\<not> os_path_exists w dp"
    | (mismatch) df where "os_path_exists w dp" "read_csv E (the (files w dp)) = Inr df"
        "shape1 df \<noteq> length FEATURE_NAMES"
    | (raised) s e where "r = Raised s e" "s \<noteq> OpenMetadata"
    using fatal by blast
  then show ?thesis
  proof cases
    case missing
    from train_model_missing_file[where E=E and mp=mp and mdp=mdp, OF missing] run
    show ?thesis by (auto simp: file_events_def)
  next
    case mismatch
    from train_model_schema_mismatch[where mp=mp and mdp=mdp, OF mismatch] run
    show ?thesis by (auto simp: file_events_def)
  next
    case raised
    from train_model_run[OF run] raised
    have "files w' = files w \<and> file_events (new_events w w') = []" by auto
    then show ?thesis using raised by (simp add: uncaught_Raised)
  qed
qed

theorem no_output_on_fatal_error_witness:
  "fst (train_model (example_env cols26 [good_row]) ''data.csv'' ''m.onnx'' ''m.json'' example_world)
     = Returned
   \<and> files (snd (train_model (example_env cols26 [good_row]) ''data.csv'' ''m.onnx'' ''m.json''
                   example_world)) = files example_world
   \<and> fst (train_model failing_fit_env ''data.csv'' ''m.onnx'' ''m.json'' example_world)
     = Raised Fit ValueError
   \<and> files (snd (train_model failing_fit_env ''data.csv'' ''m.onnx'' ''m.json'' example_world))
     = files example_world
   \<and> file_events (new_events example_world
        (snd (train_model failing_fit_env ''data.csv'' ''m.onnx'' ''m.json'' example_world))) = []
   \<and> fst (train_model failing_convert_env ''data.csv'' ''m.onnx'' ''m.json'' example_world)
     = Raised ConvertSklearn RuntimeError
   \<and> files (snd (train_model failing_convert_env ''data.csv'' ''m.onnx'' ''m.json'' example_world))
     = files example_world
   \<and> file_events (new_events example_world
        (snd (train_model failing_convert_env ''data.csv'' ''m.onnx'' ''m.json'' example_world))) = []"
proof -
  let ?df = "\<lparr>columns = cols27, rows = replicate 3 good_row\<rparr> :: rat dataframe"
  have big: "2 \<le> len (cleaned ?df)" by (simp add: cleaned_good_rows len_def)
  have ne: "shape1 \<lparr>columns = cols26, rows = [good_row]\<rparr> \<noteq> length FEATURE_NAMES"
    by (simp add: shape1_def cols26_def len_FEATURE_NAMES)
  from train_model_schema_mismatch[where mp="''m.onnx''" and mdp="''m.json''",
         OF example_world_exists example_env_read ne]
  have v1: "fst (train_model (example_env cols26 [good_row]) ''data.csv'' ''m.onnx'' ''m.json''
               example_world) = Returned" by auto
  have v2: "\<exists>df. read_csv (example_env cols26 [good_row]) (the (files example_world ''data.csv''))
               = Inr df \<and> shape1 df \<noteq> length FEATURE_NAMES"
    using ne by (simp add: example_env_read)
  have rd1: "read_csv failing_fit_env (the (files example_world ''data.csv'')) = Inr ?df"
    by (simp add: failing_fit_env_def example_env_def)
  obtain tr te where sp1: "split77 failing_fit_env ?df = Inr (tr, te)"
    using split77_ok[OF big] by blast
  have ft1: "fit failing_fit_env forest_params tr = Inl ValueError"
    by (simp add: failing_fit_env_def)
  from train_model_fit_error[where mp="''m.onnx''" and mdp="''m.json''",
         OF example_world_exists rd1 shape1_cols27 sp1 ft1]
  have t1: "fst (train_model failing_fit_env ''data.csv'' ''m.onnx'' ''m.json'' example_world)
              = Raised Fit ValueError" by auto
  have rd2: "read_csv failing_convert_env (the (files example_world ''data.csv'')) = Inr ?df"
    by (simp add: failing_convert_env_def example_env_def)
  obtain tr2 te2 where sp2: "split77 failing_convert_env ?df = Inr (tr2, te2)"
    using split77_ok[OF big] by blast
  have ft2: "fit failing_convert_env forest_params tr2 = Inr 7"
    by (simp add: failing_convert_env_def example_env_def)
  have sc2: "score_samples failing_convert_env 7 te2 = Inr (map (\<lambda>_. - 1 / 2) (rows te2))"
    by (simp add: failing_convert_env_def example_env_def)
  have cv2: "to_onnx failing_convert_env 7 = Inl RuntimeError"
    by (simp add: failing_convert_env_def)
  from train_model_convert_error[where mp="''m.onnx''" and mdp="''m.json''",
         OF example_world_exists rd2 shape1_cols27 sp2 ft2 sc2 cv2]
  have c1: "fst (train_model failing_convert_env ''data.csv'' ''m.onnx'' ''m.json'' example_world)
              = Raised ConvertSklearn RuntimeError" by auto
  have run: "train_model E dp mp mdp w = (fst (train_model E dp mp mdp w), snd (train_model E dp mp mdp w))"
    for E :: "(rat, nat, nat) env" and dp mp mdp w
    by simp
  from no_output_on_fatal_error[OF run[of "example_env cols26 [good_row]" "''data.csv''" "''m.onnx''" "''m.json''" example_world]]
       no_output_on_fatal_error[OF run[of failing_fit_env "''data.csv''" "''m.onnx''" "''m.json''" example_world]]
       no_output_on_fatal_error[OF run[of failing_convert_env "''data.csv''" "''m.onnx''" "''m.json''" example_world]]
  show ?thesis using v1 v2 t1 c1 by simp
qed

text \<open>
  C4. When the training set would be empty (the split computes a training size
  \<open>n - ceil(0.3 n)\<close> of zero, which happens exactly for a cleaned frame of fewer
  than two rows), the call of line 77 raises ValueError before the forest is fitted:
  the exception leaves \<^verbatim>\<open>train_model\<close>, the script ends with a traceback and
  status 1, and no file is opened or written.
\<close>

theorem empty_training_set_is_fatal:
  assumes ex: "os_path_exists w dp" and rd: "read_csv E (the (files w dp)) = Inr df"
    and cols: "shape1 df = length FEATURE_NAMES"
    and empty: "len (cleaned df) - nat \<lceil>(3 / 10 :: rat) * of_nat (len (cleaned df))\<rceil> = 0"
  shows "len (cleaned df) < 2 \<and> split77 E df = Inl ValueError
     \<and> (\<exists>w'. train_model E dp mp mdp w = (Raised TrainTestSplit ValueError, w')
          \<and> files w' = files w \<and> file_events (new_events w w') = []
          \<and> uncaught (Raised TrainTestSplit ValueError, w')
               = (1, [Traceback TrainTestSplit ValueError], w'))"
proof -
  from empty have small: "len (cleaned df) < 2"
    by (simp only: n_test_eq n_train_zero_iff)
  then have sp: "split77 E df = Inl ValueError" by (rule split77_small)
  from train_model_split_error[where mp=mp and mdp=mdp, OF ex rd cols sp]
  show ?thesis using small sp by (auto simp: uncaught_Raised)
qed

theorem empty_training_set_is_fatal_witness:
  "len (cleaned \<lparr>columns = cols27, rows = replicate 1 good_row\<rparr>) = 1
   \<and> fst (train_model (example_env cols27 (replicate 1 good_row)) ''data.csv'' ''m.onnx'' ''m.json''
           example_world) = Raised TrainTestSplit ValueError
   \<and> files (snd (train_model (example_env cols27 (replicate 1 good_row)) ''data.csv'' ''m.onnx''
                   ''m.json'' example_world)) = files example_world"
proof -
  let ?df = "\<lparr>columns = cols27, rows = replicate 1 good_row\<rparr> :: rat dataframe"
  have l: "len (cleaned ?df) = 1" by (simp only: cleaned_good_rows) (simp add: len_def)
  have e: "len (cleaned ?df) - nat \<lceil>(3 / 10 :: rat) * of_nat (len (cleaned ?df))\<rceil> = 0"
    by (simp only: l n_test_eq)
  from empty_training_set_is_fatal[OF example_world_exists example_env_read shape1_cols27 e,
         of "''m.onnx''" "''m.json''"]
  show ?thesis using l by auto
qed

subsection \<open>The output files (lines 96-117)\<close>

lemma metadata_write_is_file_event:
  "list_ex is_metadata_write evs = list_ex is_metadata_write (file_events evs)"
proof (induction evs)
  case Nil
  then show ?case by (simp add: file_events_def)
next
  case (Cons ev evs)
  then show ?case by (cases ev) (simp_all add: file_events_def)
qed

lemma file_write_is_file_event:
  "FileWrite p c \<in> set evs \<Longrightarrow> FileWrite p c \<in> set (file_events evs)"
  by (simp add: file_events_def)

lemma run_collapse:
  "train_model E dp mp mdp w = (fst (train_model E dp mp mdp w), snd (train_model E dp mp mdp w))"
  by simp

text \<open>
  C6. The file operations of a run are, in this order: none; or the model file opened and
  written, after which opening the metadata file raised; or the model file opened and
  written and then the metadata file opened and written. So the metadata is written
  only as the last file operation, after the write of the model file has completed,
  and never in a run that an exception left or that stopped on a validation diagnostic.
  A run that wrote the metadata returned normally and leaves the serialized model and
  the metadata at the two paths (at the model path when the two paths differ).
\<close>

theorem metadata_written_last:
  assumes run: "train_model E dp mp mdp w = (r, w')"
  shows "trace w' = trace w @ new_events w w'
    \<and> (file_events (new_events w w') = []
       \<or> (\<exists>onnx e. r = Raised OpenMetadata e
            \<and> file_events (new_events w w') = [FileOpen mp, FileWrite mp (SerializeToString onnx)])
       \<or> (\<exists>onnx md. r = Returned
            \<and> file_events (new_events w w') =
                 [FileOpen mp, FileWrite mp (SerializeToString onnx),
                  FileOpen mdp, FileWrite mdp (JsonDump md)]))
    \<and> ((\<exists>s e. r = Raised s e) \<or> \<not> os_path_exists w dp
         \<or> (\<exists>df. read_csv E (the (files w dp)) = Inr df \<and> shape1 df \<noteq> length FEATURE_NAMES)
        \<longrightarrow> \<not> list_ex is_metadata_write (new_events w w'))
    \<and> (list_ex is_metadata_write (new_events w w')
        \<longrightarrow> r = Returned
          \<and> (\<exists>onnx md. files w' = (files w)(mp \<mapsto> SerializeToString onnx, mdp \<mapsto> JsonDump md))
          \<and> (mp \<noteq> mdp \<longrightarrow> (\<exists>onnx. files w' mp = Some (SerializeToString onnx))))"
    (is "?ext \<and> ?shape \<and> ?never \<and> ?implies")
proof -
  let ?fe = "file_events (new_events w w')"
  let ?mw = "list_ex is_metadata_write (new_events w w')"
  from train_model_run[OF run] have ext: ?ext by blast
  from train_model_run[OF run]
  consider
    (halt) "files w' = files w" "?fe = []"
  | (partial) g e where "r = Raised OpenMetadata e"
      "?fe = [FileOpen mp, FileWrite mp (SerializeToString
                \<lparr>graph_input = [(''float_input'', FloatTensorType [None, Some (length FEATURE_NAMES)])],
                 opset = 13, graph_nodes = g\<rparr>)]"
  | (finished) df tr ss g where "os_path_exists w dp" "read_csv E (the (files w dp)) = Inr df"
      "shape1 df = length FEATURE_NAMES" "r = Returned"
      "?fe = [FileOpen mp, FileWrite mp (SerializeToString
                \<lparr>graph_input = [(''float_input'', FloatTensorType [None, Some (length FEATURE_NAMES)])],
                 opset = 13, graph_nodes = g\<rparr>),
              FileOpen mdp, FileWrite mdp (JsonDump (metadata E dp tr (mean E ss)))]"
      "files w' = (files w)(mp \<mapsto> SerializeToString
                \<lparr>graph_input = [(''float_input'', FloatTensorType [None, Some (length FEATURE_NAMES)])],
                 opset = 13, graph_nodes = g\<rparr>,
              mdp \<mapsto> JsonDump (metadata E dp tr (mean E ss)))"
    by blast
  then have "?shape \<and> ?never \<and> ?implies"
  proof cases
    case halt
    then have "\<not> ?mw" by (simp add: metadata_write_is_file_event[of "new_events w w'"])
    then show ?thesis using halt by simp
  next
    case partial
    then have "\<not> ?mw" by (simp add: metadata_write_is_file_event[of "new_events w w'"])
    moreover have ?shape using partial by blast
    ultimately show ?thesis by simp
  next
    case finished
    have ?shape using finished(4,5) by blast
    moreover have ?never using finished(1-4) by auto
    moreover have ?implies using finished(4,6) by auto
    ultimately show ?thesis by blast
  qed
  with ext show ?thesis by blast
qed

text \<open>
  C8. Every model that a run writes was converted with exactly one declared input,
  named \<open>float_input\<close>, of the 32-bit float tensor type, with shape
  \<open>[None, 27]\<close>: a variable batch dimension and the length of the schema.
\<close>

theorem exported_input_declaration:
  assumes run: "train_model E dp mp mdp w = (r, w')"
    and wr: "FileWrite p (SerializeToString onnx) \<in> set (new_events w w')"
  shows "p = mp \<and> length (graph_input onnx) = 1
     \<and> graph_input onnx = [(''float_input'', FloatTensorType [None, Some 27])]
     \<and> length FEATURE_NAMES = 27 \<and> opset onnx = 13"
proof -
  from wr have "FileWrite p (SerializeToString onnx) \<in> set (file_events (new_events w w'))"
    by (rule file_write_is_file_event)
  with train_model_run[OF run]
  have "p = mp \<and> onnx =
      \<lparr>graph_input = [(''float_input'', FloatTensorType [None, Some (length FEATURE_NAMES)])],
       opset = 13, graph_nodes = graph_nodes onnx\<rparr>"
    by auto
  then show ?thesis using len_FEATURE_NAMES
    by (metis (no_types) length_Cons list.size(3) One_nat_def onnx_model.select_convs(1,2))
qed

lemma example_run_success:
  assumes n: "2 \<le> n"
  shows "\<exists>tr te w'. split77 (example_env cols27 (replicate n good_row))
            \<lparr>columns = cols27, rows = replicate n good_row\<rparr> = Inr (tr, te)
     \<and> train_model (example_env cols27 (replicate n good_row)) ''data.csv'' ''m.onnx'' ''m.json''
          example_world = (Returned, w')
     \<and> file_events (new_events example_world w') =
          [FileOpen ''m.onnx'',
           FileWrite ''m.onnx'' (SerializeToString
             \<lparr>graph_input = [(''float_input'', FloatTensorType [None, Some (length FEATURE_NAMES)])],
              opset = 13, graph_nodes = 7\<rparr>),
           FileOpen ''m.json'',
           FileWrite ''m.json'' (JsonDump
             (metadata (example_env cols27 (replicate n good_row)) ''data.csv'' tr (- 1 / 2)))]
     \<and> (Stdout ''Warning: Dataset is very small. Model quality may be poor.''
            \<in> set (new_events example_world w')) = (n < 200)"
proof -
  let ?E = "example_env cols27 (replicate n good_row)"
  let ?df = "\<lparr>columns = cols27, rows = replicate n good_row\<rparr> :: rat dataframe"
  have l: "len (cleaned ?df) = n" by (simp only: cleaned_good_rows) (simp add: len_def)
  then have big: "2 \<le> len (cleaned ?df)" using n by simp
  obtain tr te where sp: "split77 ?E ?df = Inr (tr, te)" using split77_ok[OF big] by blast
  have ft: "fit ?E forest_params tr = Inr 7" by (simp add: example_env_def)
  have sc: "score_samples ?E 7 te = Inr (map (\<lambda>_. - 1 / 2) (rows te))"
    by (simp add: example_env_def)
  have cv: "to_onnx ?E 7 = Inr 7" by (simp add: example_env_def)
  have o: "open_error ?E p = None" for p by (simp add: example_env_def)
  have mn: "mean ?E xs = - 1 / 2" for xs by (simp add: example_env_def)
  from train_model_success[where mp="''m.onnx''" and mdp="''m.json''",
         OF example_world_exists example_env_read shape1_cols27 sp ft sc cv o o]
  show ?thesis using sp l by (auto simp: mn)
qed

lemma split77_len_train:
  assumes sp: "split77 E df = Inr (tr, te)"
    and lp: "length (permutation E 42 (len (cleaned df))) = len (cleaned df)"
  shows "len tr = len (cleaned df) - (3 * len (cleaned df) + 9) div 10"
proof -
  have big: "2 \<le> len (cleaned df)"
  proof (rule ccontr)
    assume "\<not> 2 \<le> len (cleaned df)"
    then have "len (cleaned df) < 2" by simp
    then have "split77 E df = Inl ValueError" by (rule split77_small)
    with sp show False by simp
  qed
  define n where "n = len (cleaned df)"
  define k where "k = (3 * n + 9) div 10"
  have "k < n" using big n_test_lt[of n] by (simp add: k_def n_def)
  from split_ok[OF big, of "permutation E"] sp
  have "tr = safe_indexing (cleaned df) (take (n - k) (drop k (permutation E 42 n)))"
    by (simp add: split77_def n_def k_def)
  moreover have "length (permutation E 42 n) = n" using lp by (simp add: n_def)
  ultimately have "len tr = n - k" by (simp add: len_def safe_indexing_def)
  then show ?thesis by (simp add: n_def k_def)
qed

text \<open>
  C7. The metadata a run writes is the object with exactly these seven keys, in this
  order: the model kind, the timestamp \<open>int(time.time())\<close>, the data path, the
  number of rows of the training frame, the feature count 27, the schema in order, and
  the evaluation statistic: the mean of the scores that the model fitted on the training
  frame gives to the rows of the evaluation frame. Such a run returned normally. With a
  generator that returns \<open>n\<close> indices the training frame has \<open>n - ceil(0.3 n)\<close>
  rows: 700 for a cleaned frame of 1000 rows.
\<close>

theorem metadata_record_fields:
  assumes run: "train_model E dp mp mdp w = (r, w')"
    and wr: "FileWrite p (JsonDump md) \<in> set (new_events w w')"
  shows "\<exists>df tr te m ss. r = Returned \<and> p = mdp
     \<and> read_csv E (the (files w dp)) = Inr df \<and> split77 E df = Inr (tr, te)
     \<and> fit E forest_params tr = Inr m \<and> score_samples E m te = Inr ss
     \<and> md = JObject
         [(''model_type'', JString ''IsolationForest''),
          (''training_timestamp_utc'', JInt (py_int (time_time E))),
          (''training_data_path'', JString dp),
          (''training_samples'', JInt (int (len tr))),
          (''num_features'', JInt 27),
          (''feature_names_ordered'', JArray (map JString FEATURE_NAMES)),
          (''evaluation_metrics'', JObject [(''average_anomaly_score_test'', JFloat (mean E ss))])]
     \<and> length FEATURE_NAMES = 27
     \<and> files w' mdp = Some (JsonDump md)
     \<and> (length (permutation E 42 (len (cleaned df))) = len (cleaned df)
          \<longrightarrow> len tr = len (cleaned df) - (3 * len (cleaned df) + 9) div 10
            \<and> (len (cleaned df) = 1000 \<longrightarrow> len tr = 700))"
proof -
  from wr have "FileWrite p (JsonDump md) \<in> set (file_events (new_events w w'))"
    by (rule file_write_is_file_event)
  with train_model_run[OF run]
  obtain df tr te m ss where a: "r = Returned" "p = mdp" "read_csv E (the (files w dp)) = Inr df"
      "split77 E df = Inr (tr, te)" "md = metadata E dp tr (mean E ss)"
      "files w' mdp = Some (JsonDump md)"
      "fit E forest_params tr = Inr m" "score_samples E m te = Inr ss"
    by auto
  have b: "len tr = len (cleaned df) - (3 * len (cleaned df) + 9) div 10"
    if "length (permutation E 42 (len (cleaned df))) = len (cleaned df)"
    using split77_len_train[OF a(4) that] .
  have c: "len tr = 700"
    if "length (permutation E 42 (len (cleaned df))) = len (cleaned df)" "len (cleaned df) = 1000"
    using b[OF that(1)] that(2) by simp
  have d: "length (permutation E 42 (len (cleaned df))) = len (cleaned df)
          \<longrightarrow> len tr = len (cleaned df) - (3 * len (cleaned df) + 9) div 10
            \<and> (len (cleaned df) = 1000 \<longrightarrow> len tr = 700)"
    using b c by blast
  have e: "md = JObject
         [(''model_type'', JString ''IsolationForest''),
          (''training_timestamp_utc'', JInt (py_int (time_time E))),
          (''training_data_path'', JString dp),
          (''training_samples'', JInt (int (len tr))),
          (''num_features'', JInt 27),
          (''feature_names_ordered'', JArray (map JString FEATURE_NAMES)),
          (''evaluation_metrics'', JObject [(''average_anomaly_score_test'', JFloat (mean E ss))])]"
    using a(5) by (simp add: metadata_def len_FEATURE_NAMES)
  show ?thesis
    using a(1-4,6-8) d e len_FEATURE_NAMES by blast
qed



lemma file_events_subset: "ev \<in> set (file_events evs) \<Longrightarrow> ev \<in> set evs"
  by (simp add: file_events_def)

lemma failing_fit_run:
  "\<exists>w'. train_model failing_fit_env ''data.csv'' ''m.onnx'' ''m.json'' example_world
          = (Raised Fit ValueError, w')"
proof -
  let ?df = "\<lparr>columns = cols27, rows = replicate 3 good_row\<rparr> :: rat dataframe"
  have big: "2 \<le> len (cleaned ?df)" by (simp add: cleaned_good_rows len_def)
  have rd: "read_csv failing_fit_env (the (files example_world ''data.csv'')) = Inr ?df"
    by (simp add: failing_fit_env_def example_env_def)
  obtain tr te where sp: "split77 failing_fit_env ?df = Inr (tr, te)"
    using split77_ok[OF big] by blast
  have ft: "fit failing_fit_env forest_params tr = Inl ValueError"
    by (simp add: failing_fit_env_def)
  from train_model_fit_error[where mp="''m.onnx''" and mdp="''m.json''",
         OF example_world_exists rd shape1_cols27 sp ft]
  show ?thesis by blast
qed

theorem metadata_written_last_witness:
  "list_ex is_metadata_write (new_events example_world
      (snd (train_model (example_env cols27 (replicate 3 good_row)) ''data.csv'' ''m.onnx''
              ''m.json'' example_world)))
   \<and> fst (train_model (example_env cols27 (replicate 3 good_row)) ''data.csv'' ''m.onnx''
            ''m.json'' example_world) = Returned
   \<and> (\<exists>onnx. files (snd (train_model (example_env cols27 (replicate 3 good_row)) ''data.csv''
                          ''m.onnx'' ''m.json'' example_world)) ''m.onnx''
              = Some (SerializeToString onnx))
   \<and> fst (train_model failing_fit_env ''data.csv'' ''m.onnx'' ''m.json'' example_world)
       = Raised Fit ValueError
   \<and> \<not> list_ex is_metadata_write (new_events example_world
      (snd (train_model failing_fit_env ''data.csv'' ''m.onnx'' ''m.json'' example_world)))"
proof -
  let ?E = "example_env cols27 (replicate 3 good_row)"
  from example_run_success[of 3]
  obtain tr w' where run: "train_model ?E ''data.csv'' ''m.onnx'' ''m.json'' example_world
        = (Returned, w')"
    and fe: "file_events (new_events example_world w') =
          [FileOpen ''m.onnx'',
           FileWrite ''m.onnx'' (SerializeToString
             \<lparr>graph_input = [(''float_input'', FloatTensorType [None, Some (length FEATURE_NAMES)])],
              opset = 13, graph_nodes = 7\<rparr>),
           FileOpen ''m.json'',
           FileWrite ''m.json'' (JsonDump (metadata ?E ''data.csv'' tr (- 1 / 2)))]"
    by auto
  have mw: "list_ex is_metadata_write (new_events example_world w')"
    by (simp add: metadata_write_is_file_event[of "new_events example_world w'"] fe)
  have ne: "''m.onnx'' \<noteq> ''m.json''" by simp
  from metadata_written_last[OF run] mw ne
  have ok: "\<exists>onnx. files w' ''m.onnx'' = Some (SerializeToString onnx)" by blast
  from failing_fit_run obtain w2 where run2:
    "train_model failing_fit_env ''data.csv'' ''m.onnx'' ''m.json'' example_world
       = (Raised Fit ValueError, w2)" by blast
  from metadata_written_last[OF run2]
  have no: "\<not> list_ex is_metadata_write (new_events example_world w2)" by blast
  show ?thesis using run mw ok run2 no by simp
qed

theorem exported_input_declaration_witness:
  "FileWrite ''m.onnx'' (SerializeToString
      \<lparr>graph_input = [(''float_input'', FloatTensorType [None, Some (length FEATURE_NAMES)])],
       opset = 13, graph_nodes = 7\<rparr>)
     \<in> set (new_events example_world
          (snd (train_model (example_env cols27 (replicate 3 good_row)) ''data.csv'' ''m.onnx''
                  ''m.json'' example_world)))
   \<and> graph_input
       \<lparr>graph_input = [(''float_input'', FloatTensorType [None, Some (length FEATURE_NAMES)])],
        opset = 13, graph_nodes = (7::nat)\<rparr>
       = [(''float_input'', FloatTensorType [None, Some 27])]"
proof -
  let ?E = "example_env cols27 (replicate 3 good_row)"
  let ?X = "\<lparr>graph_input = [(''float_input'', FloatTensorType [None, Some (length FEATURE_NAMES)])],
             opset = 13, graph_nodes = (7::nat)\<rparr>"
  from example_run_success[of 3]
  obtain tr w' where run: "train_model ?E ''data.csv'' ''m.onnx'' ''m.json'' example_world
        = (Returned, w')"
    and fe: "file_events (new_events example_world w') =
          [FileOpen ''m.onnx'', FileWrite ''m.onnx'' (SerializeToString ?X),
           FileOpen ''m.json'',
           FileWrite ''m.json'' (JsonDump (metadata ?E ''data.csv'' tr (- 1 / 2)))]"
    by auto
  have "FileWrite ''m.onnx'' (SerializeToString ?X) \<in> set (file_events (new_events example_world w'))"
    by (simp add: fe)
  then have mem: "FileWrite ''m.onnx'' (SerializeToString ?X) \<in> set (new_events example_world w')"
    by (rule file_events_subset)
  from exported_input_declaration[OF run mem]
  have "graph_input ?X = [(''float_input'', FloatTensorType [None, Some 27])]" by blast
  then show ?thesis using run mem by simp
qed

lemma scoring_env_run:
  "\<exists>w'. split77 scoring_env \<lparr>columns = cols27, rows = [numbered_row 1, numbered_row 2, numbered_row 3, numbered_row 4]\<rparr>
       = Inr (\<lparr>columns = map StrLabel FEATURE_NAMES, rows = [numbered_row 2, numbered_row 1]\<rparr>,
              \<lparr>columns = map StrLabel FEATURE_NAMES, rows = [numbered_row 4, numbered_row 3]\<rparr>)
     \<and> fit scoring_env forest_params
         \<lparr>columns = map StrLabel FEATURE_NAMES, rows = [numbered_row 2, numbered_row 1]\<rparr> = Inr 2
     \<and> score_samples scoring_env 2
         \<lparr>columns = map StrLabel FEATURE_NAMES, rows = [numbered_row 4, numbered_row 3]\<rparr>
         = Inr [- 2, - 3 / 2]
     \<and> mean scoring_env [- 2, - 3 / 2] = - 7 / 4
     \<and> train_model scoring_env ''data.csv'' ''m.onnx'' ''m.json'' example_world = (Returned, w')
     \<and> FileWrite ''m.json'' (JsonDump
          (metadata scoring_env ''data.csv''
             \<lparr>columns = map StrLabel FEATURE_NAMES, rows = [numbered_row 2, numbered_row 1]\<rparr>
             (mean scoring_env [- 2, - 3 / 2])))
         \<in> set (new_events example_world w')"
proof -
  let ?df = "\<lparr>columns = cols27, rows = [numbered_row 1, numbered_row 2, numbered_row 3, numbered_row 4]\<rparr> :: rat dataframe"
  let ?tr = "\<lparr>columns = map StrLabel FEATURE_NAMES, rows = [numbered_row 2, numbered_row 1]\<rparr>
               :: rat dataframe"
  let ?te = "\<lparr>columns = map StrLabel FEATURE_NAMES, rows = [numbered_row 4, numbered_row 3]\<rparr>
               :: rat dataframe"
  have rd: "read_csv scoring_env (the (files example_world ''data.csv'')) = Inr ?df"
    by (simp add: scoring_env_def example_env_def)
  have cl: "cleaned ?df
      = \<lparr>columns = map StrLabel FEATURE_NAMES, rows = [numbered_row 1, numbered_row 2, numbered_row 3, numbered_row 4]\<rparr>"
    by (simp add: cleaned_def dropna_def replace_def numbered_row_def)
  have l: "len (cleaned ?df) = 4" by (simp only: cl) (simp add: len_def)
  have big: "2 \<le> len (cleaned ?df)" by (simp only: l)
  have "rev [0..<4] = [3, 2, 1, 0::nat]" by code_simp
  then have pm: "permutation scoring_env 42 4 = [3, 2, 1, 0]"
    by (simp add: scoring_env_def example_env_def)
  have sp: "split77 scoring_env ?df = Inr (?tr, ?te)"
    using split_ok[OF big, of "permutation scoring_env"]
    unfolding split77_def l by (simp add: cl pm safe_indexing_def)
  have ft: "fit scoring_env forest_params ?tr = Inr 2"
    by (simp add: scoring_env_def len_def)
  have sc: "score_samples scoring_env 2 ?te = Inr [- 2, - 3 / 2]"
    by (simp add: scoring_env_def numbered_row_def)
  have mn: "mean scoring_env [- 2, - 3 / 2] = - 7 / 4"
    by (simp add: scoring_env_def)
  have cv: "to_onnx scoring_env 2 = Inr 2" by (simp add: scoring_env_def)
  have o: "open_error scoring_env p = None" for p by (simp add: scoring_env_def example_env_def)
  from train_model_success[where mp="''m.onnx''" and mdp="''m.json''",
         OF example_world_exists rd shape1_cols27 sp ft sc cv o o]
  obtain w' where run: "train_model scoring_env ''data.csv'' ''m.onnx'' ''m.json'' example_world
        = (Returned, w')"
    and fe: "file_events (new_events example_world w') =
          [FileOpen ''m.onnx'',
           FileWrite ''m.onnx'' (SerializeToString
             \<lparr>graph_input = [(''float_input'', FloatTensorType [None, Some (length FEATURE_NAMES)])],
              opset = 13, graph_nodes = 2\<rparr>),
           FileOpen ''m.json'',
           FileWrite ''m.json'' (JsonDump
             (metadata scoring_env ''data.csv'' ?tr (mean scoring_env [- 2, - 3 / 2])))]"
    by auto
  have "FileWrite ''m.json'' (JsonDump
             (metadata scoring_env ''data.csv'' ?tr (mean scoring_env [- 2, - 3 / 2])))
          \<in> set (file_events (new_events example_world w'))"
    by (simp add: fe)
  then have "FileWrite ''m.json'' (JsonDump
             (metadata scoring_env ''data.csv'' ?tr (mean scoring_env [- 2, - 3 / 2])))
          \<in> set (new_events example_world w')"
    by (rule file_events_subset)
  with sp ft sc mn run show ?thesis by blast
qed

theorem metadata_record_fields_witness:
  "(\<exists>tr. FileWrite ''m.json'' (JsonDump
            (metadata (example_env cols27 (replicate 1000 good_row)) ''data.csv'' tr (- 1 / 2)))
         \<in> set (new_events example_world
              (snd (train_model (example_env cols27 (replicate 1000 good_row)) ''data.csv''
                      ''m.onnx'' ''m.json'' example_world)))
       \<and> len tr = 700
       \<and> metadata (example_env cols27 (replicate 1000 good_row)) ''data.csv'' tr (- 1 / 2) =
           JObject
            [(''model_type'', JString ''IsolationForest''),
             (''training_timestamp_utc'', JInt 1700000000),
             (''training_data_path'', JString ''data.csv''),
             (''training_samples'', JInt 700),
             (''num_features'', JInt 27),
             (''feature_names_ordered'', JArray (map JString FEATURE_NAMES)),
             (''evaluation_metrics'', JObject [(''average_anomaly_score_test'', JFloat (- 1 / 2))])])
   \<and> (\<exists>md. FileWrite ''m.json'' (JsonDump md)
         \<in> set (new_events example_world
              (snd (train_model scoring_env ''data.csv'' ''m.onnx'' ''m.json'' example_world)))
       \<and> md = JObject
            [(''model_type'', JString ''IsolationForest''),
             (''training_timestamp_utc'', JInt 1700000000),
             (''training_data_path'', JString ''data.csv''),
             (''training_samples'', JInt 2),
             (''num_features'', JInt 27),
             (''feature_names_ordered'', JArray (map JString FEATURE_NAMES)),
             (''evaluation_metrics'', JObject [(''average_anomaly_score_test'', JFloat (- 7 / 4))])])"
proof -
  let ?E = "example_env cols27 (replicate 1000 good_row)"
  let ?df = "\<lparr>columns = cols27, rows = replicate 1000 good_row\<rparr> :: rat dataframe"
  from example_run_success[of 1000]
  obtain tr te w' where sp: "split77 ?E ?df = Inr (tr, te)"
    and run: "train_model ?E ''data.csv'' ''m.onnx'' ''m.json'' example_world = (Returned, w')"
    and fe: "file_events (new_events example_world w') =
          [FileOpen ''m.onnx'',
           FileWrite ''m.onnx'' (SerializeToString
             \<lparr>graph_input = [(''float_input'', FloatTensorType [None, Some (length FEATURE_NAMES)])],
              opset = 13, graph_nodes = 7\<rparr>),
           FileOpen ''m.json'',
           FileWrite ''m.json'' (JsonDump (metadata ?E ''data.csv'' tr (- 1 / 2)))]"
    by auto
  let ?md = "metadata ?E ''data.csv'' tr (- 1 / 2)"
  have "FileWrite ''m.json'' (JsonDump ?md) \<in> set (file_events (new_events example_world w'))"
    by (simp add: fe)
  then have mem: "FileWrite ''m.json'' (JsonDump ?md) \<in> set (new_events example_world w')"
    by (rule file_events_subset)
  have l: "len (cleaned ?df) = 1000" by (simp only: cleaned_good_rows) (simp add: len_def)
  have lp: "length (permutation ?E 42 (len (cleaned ?df))) = len (cleaned ?df)"
    by (simp add: example_env_def)
  from metadata_record_fields[OF run mem]
  obtain df' tr' te' where rd': "read_csv ?E (the (files example_world ''data.csv'')) = Inr df'"
    and sp': "split77 ?E df' = Inr (tr', te')"
    and cond: "length (permutation ?E 42 (len (cleaned df'))) = len (cleaned df')
          \<longrightarrow> len tr' = len (cleaned df') - (3 * len (cleaned df') + 9) div 10
            \<and> (len (cleaned df') = 1000 \<longrightarrow> len tr' = 700)"
    by blast
  from rd' have "df' = ?df" by (simp add: example_env_read)
  with sp sp' have "tr' = tr" by simp
  with cond \<open>df' = ?df\<close> lp l have t: "len tr = 700" by blast
  have fl: "\<lfloor>(1700000000 + 1 / 4 :: rat)\<rfloor> = 1700000000" by (rule floor_unique) simp_all
  then have tt: "py_int (time_time ?E) = 1700000000"
    by (simp only: py_int_def example_env_def env.select_convs) simp
  have "?md = JObject
            [(''model_type'', JString ''IsolationForest''),
             (''training_timestamp_utc'', JInt 1700000000),
             (''training_data_path'', JString ''data.csv''),
             (''training_samples'', JInt 700),
             (''num_features'', JInt 27),
             (''feature_names_ordered'', JArray (map JString FEATURE_NAMES)),
             (''evaluation_metrics'', JObject [(''average_anomaly_score_test'', JFloat (- 1 / 2))])]"
    by (simp add: metadata_def t tt len_FEATURE_NAMES)
  moreover from mem run
  have "FileWrite ''m.json'' (JsonDump ?md)
          \<in> set (new_events example_world
               (snd (train_model ?E ''data.csv'' ''m.onnx'' ''m.json'' example_world)))"
    by simp
  ultimately have first: "\<exists>tr. FileWrite ''m.json'' (JsonDump
            (metadata ?E ''data.csv'' tr (- 1 / 2)))
         \<in> set (new_events example_world
              (snd (train_model ?E ''data.csv'' ''m.onnx'' ''m.json'' example_world)))
       \<and> len tr = 700
       \<and> metadata ?E ''data.csv'' tr (- 1 / 2) =
           JObject
            [(''model_type'', JString ''IsolationForest''),
             (''training_timestamp_utc'', JInt 1700000000),
             (''training_data_path'', JString ''data.csv''),
             (''training_samples'', JInt 700),
             (''num_features'', JInt 27),
             (''feature_names_ordered'', JArray (map JString FEATURE_NAMES)),
             (''evaluation_metrics'', JObject [(''average_anomaly_score_test'', JFloat (- 1 / 2))])]"
    using t by blast
  let ?sdf = "\<lparr>columns = cols27, rows = [numbered_row 1, numbered_row 2, numbered_row 3, numbered_row 4]\<rparr> :: rat dataframe"
  let ?str = "\<lparr>columns = map StrLabel FEATURE_NAMES, rows = [numbered_row 2, numbered_row 1]\<rparr>
               :: rat dataframe"
  let ?ste = "\<lparr>columns = map StrLabel FEATURE_NAMES, rows = [numbered_row 4, numbered_row 3]\<rparr>
               :: rat dataframe"
  from scoring_env_run
  obtain w2 where sp2: "split77 scoring_env ?sdf = Inr (?str, ?ste)"
    and ft2: "fit scoring_env forest_params ?str = Inr 2"
    and sc2: "score_samples scoring_env 2 ?ste = Inr [- 2, - 3 / 2]"
    and mn2: "mean scoring_env [- 2, - 3 / 2] = - 7 / 4"
    and run2: "train_model scoring_env ''data.csv'' ''m.onnx'' ''m.json'' example_world
        = (Returned, w2)"
    and mem2: "FileWrite ''m.json'' (JsonDump
          (metadata scoring_env ''data.csv'' ?str (mean scoring_env [- 2, - 3 / 2])))
         \<in> set (new_events example_world w2)"
    by blast
  let ?md2 = "metadata scoring_env ''data.csv'' ?str (mean scoring_env [- 2, - 3 / 2])"
  have rd2: "read_csv scoring_env (the (files example_world ''data.csv'')) = Inr ?sdf"
    by (simp add: scoring_env_def example_env_def)
  from metadata_record_fields[OF run2 mem2]
  obtain df3 tr3 te3 m3 ss3 where rd3: "read_csv scoring_env (the (files example_world ''data.csv'')) = Inr df3"
    and sp3: "split77 scoring_env df3 = Inr (tr3, te3)"
    and ft3: "fit scoring_env forest_params tr3 = Inr m3"
    and sc3: "score_samples scoring_env m3 te3 = Inr ss3"
    and md3: "?md2 = JObject
         [(''model_type'', JString ''IsolationForest''),
          (''training_timestamp_utc'', JInt (py_int (time_time scoring_env))),
          (''training_data_path'', JString ''data.csv''),
          (''training_samples'', JInt (int (len tr3))),
          (''num_features'', JInt 27),
          (''feature_names_ordered'', JArray (map JString FEATURE_NAMES)),
          (''evaluation_metrics'', JObject [(''average_anomaly_score_test'', JFloat (mean scoring_env ss3))])]"
    by blast
  from rd3 rd2 have "df3 = ?sdf" by simp
  with sp3 sp2 have "tr3 = ?str" "te3 = ?ste" by simp_all
  with ft3 ft2 have "m3 = 2" by simp
  with sc3 sc2 \<open>te3 = ?ste\<close> have "ss3 = [- 2, - 3 / 2]" by simp
  then have mn3: "mean scoring_env ss3 = - 7 / 4" using mn2 by simp
  have l3: "len tr3 = 2" using \<open>tr3 = ?str\<close> by (simp add: len_def)
  have tt2: "py_int (time_time scoring_env) = 1700000000"
    using fl by (simp only: py_int_def scoring_env_def example_env_def env.select_convs
                   env.update_convs) simp
  have "?md2 = JObject
            [(''model_type'', JString ''IsolationForest''),
             (''training_timestamp_utc'', JInt 1700000000),
             (''training_data_path'', JString ''data.csv''),
             (''training_samples'', JInt 2),
             (''num_features'', JInt 27),
             (''feature_names_ordered'', JArray (map JString FEATURE_NAMES)),
             (''evaluation_metrics'', JObject [(''average_anomaly_score_test'', JFloat (- 7 / 4))])]"
    by (simp only: md3 mn3 l3 tt2) simp
  moreover from mem2 run2
  have "FileWrite ''m.json'' (JsonDump ?md2)
          \<in> set (new_events example_world
               (snd (train_model scoring_env ''data.csv'' ''m.onnx'' ''m.json'' example_world)))"
    by simp
  ultimately have second: "\<exists>md. FileWrite ''m.json'' (JsonDump md)
         \<in> set (new_events example_world
              (snd (train_model scoring_env ''data.csv'' ''m.onnx'' ''m.json'' example_world)))
       \<and> md = JObject
            [(''model_type'', JString ''IsolationForest''),
             (''training_timestamp_utc'', JInt 1700000000),
             (''training_data_path'', JString ''data.csv''),
             (''training_samples'', JInt 2),
             (''num_features'', JInt 27),
             (''feature_names_ordered'', JArray (map JString FEATURE_NAMES)),
             (''evaluation_metrics'', JObject [(''average_anomaly_score_test'', JFloat (- 7 / 4))])]"
    by blast
  show ?thesis using first second by (rule conjI)
qed


subsection \<open>Cleaning and splitting in a run (lines 68-79)\<close>

text \<open>
  C2. In every run that passes the two validations, the data frame after lines 70-71
  holds exactly the rows of the parsed frame in which every value is finite, unchanged
  and in order (a row is kept whole or dropped whole): its size is the parsed size minus
  the number of rows with at least one non-finite value, and no surviving row holds a
  non-finite value. This is the frame the run goes on with: the run prints the parsed
  size and then this size, it raises at line 77 exactly when the split of this frame
  raises, and otherwise it trains on the training part of this frame.
\<close>

theorem cleaner_drops_rows:
  assumes ex: "os_path_exists w dp" and rd: "read_csv E (the (files w dp)) = Inr df"
    and cols: "shape1 df = length FEATURE_NAMES"
  shows "rows (cleaned df) = filter (\<lambda>r. \<forall>c\<in>set r. isfinite c) (rows df)
     \<and> len (cleaned df) = len df - length (filter (\<lambda>r. \<exists>c\<in>set r. \<not> isfinite c) (rows df))
     \<and> (\<forall>r\<in>set (rows (cleaned df)). \<forall>c\<in>set r. isfinite c)
     \<and> take 4 (new_events w (snd (train_model E dp mp mdp w))) =
          [Stdout ''--- ML Training Pipeline Started ---'',
           Stdout (''Loading feature data from: '' @ dp),
           Stdout (''Loaded '' @ str (len df) @ '' raw samples.''),
           Stdout (''Using ''
                     @ str (len df - length (filter (\<lambda>r. \<exists>c\<in>set r. \<not> isfinite c) (rows df)))
                     @ '' samples after cleaning NaN/inf values.'')]
     \<and> (\<forall>e. (fst (train_model E dp mp mdp w) = Raised TrainTestSplit e)
            = (train_test_split (permutation E) (cleaned df) (3 / 10) 42 = Inl e))
     \<and> (\<forall>tr te. train_test_split (permutation E) (cleaned df) (3 / 10) 42 = Inr (tr, te) \<longrightarrow>
           Stdout (''Training IsolationForest model on '' @ str (len tr) @ '' samples...'')
             \<in> set (new_events w (snd (train_model E dp mp mdp w)))
           \<and> (\<forall>e. fit E forest_params tr = Inl e \<longrightarrow>
                  fst (train_model E dp mp mdp w) = Raised Fit e))"
proof -
  note rep = train_model_report[OF ex rd cols, where mp=mp and mdp=mdp]
  have a: "rows (cleaned df) = filter (\<lambda>r. \<forall>c\<in>set r. isfinite c) (rows df)"
    and b: "len (cleaned df)
      = len df - length (filter (\<lambda>r. \<exists>c\<in>set r. \<not> isfinite c) (rows df))"
    using cleaned_frame[of df] by simp_all
  have c: "\<forall>r\<in>set (rows (cleaned df)). \<forall>c\<in>set r. isfinite c"
    by (simp only: a) simp
  from rep have "take 4 (new_events w (snd (train_model E dp mp mdp w))) =
          [Stdout ''--- ML Training Pipeline Started ---'',
           Stdout (''Loading feature data from: '' @ dp),
           Stdout (''Loaded '' @ str (len df) @ '' raw samples.''),
           Stdout (''Using '' @ str (len (cleaned df)) @ '' samples after cleaning NaN/inf values.'')]"
    by (rule conjunct1)
  then have d: "take 4 (new_events w (snd (train_model E dp mp mdp w))) =
          [Stdout ''--- ML Training Pipeline Started ---'',
           Stdout (''Loading feature data from: '' @ dp),
           Stdout (''Loaded '' @ str (len df) @ '' raw samples.''),
           Stdout (''Using ''
                     @ str (len df - length (filter (\<lambda>r. \<exists>c\<in>set r. \<not> isfinite c) (rows df)))
                     @ '' samples after cleaning NaN/inf values.'')]"
    by (simp only: b)
  from rep have r3: "\<forall>e. split77 E df = Inl e \<longrightarrow>
      fst (train_model E dp mp mdp w) = Raised TrainTestSplit e"
    by (rule conjunct2[THEN conjunct2, THEN conjunct1])
  from rep have r4: "\<forall>tr te. split77 E df = Inr (tr, te) \<longrightarrow>
          Stdout (''Training IsolationForest model on '' @ str (len tr) @ '' samples...'')
            \<in> set (new_events w (snd (train_model E dp mp mdp w)))
          \<and> (\<forall>e. fst (train_model E dp mp mdp w) \<noteq> Raised TrainTestSplit e)"
    by (rule conjunct2[THEN conjunct2, THEN conjunct2])
  have e: "(fst (train_model E dp mp mdp w) = Raised TrainTestSplit e)
            = (split77 E df = Inl e)" for e
  proof (cases "split77 E df")
    case (Inl e')
    with r3 have "fst (train_model E dp mp mdp w) = Raised TrainTestSplit e'" by blast
    with Inl show ?thesis by auto
  next
    case (Inr p)
    then obtain tr te where "split77 E df = Inr (tr, te)" by (cases p) simp
    with r4 show ?thesis by simp
  qed
  have f: "Stdout (''Training IsolationForest model on '' @ str (len tr) @ '' samples...'')
             \<in> set (new_events w (snd (train_model E dp mp mdp w)))
           \<and> (\<forall>e. fit E forest_params tr = Inl e \<longrightarrow>
                  fst (train_model E dp mp mdp w) = Raised Fit e)"
    if sp: "split77 E df = Inr (tr, te)" for tr te
  proof -
    have "fst (train_model E dp mp mdp w) = Raised Fit e"
      if "fit E forest_params tr = Inl e" for e
      using train_model_fit_error[where mp=mp and mdp=mdp, OF ex rd cols sp that] by auto
    with r4 sp show ?thesis by blast
  qed
  from e have e': "\<forall>e. (fst (train_model E dp mp mdp w) = Raised TrainTestSplit e)
            = (train_test_split (permutation E) (cleaned df) (3 / 10) 42 = Inl e)"
    by (simp only: split77_def) simp
  from f have f': "\<forall>tr te. train_test_split (permutation E) (cleaned df) (3 / 10) 42 = Inr (tr, te) \<longrightarrow>
           Stdout (''Training IsolationForest model on '' @ str (len tr) @ '' samples...'')
             \<in> set (new_events w (snd (train_model E dp mp mdp w)))
           \<and> (\<forall>e. fit E forest_params tr = Inl e \<longrightarrow>
                  fst (train_model E dp mp mdp w) = Raised Fit e)"
    unfolding split77_def by blast
  show ?thesis using a b c d e' f' by (intro conjI)
qed

theorem cleaner_drops_rows_witness:
  "os_path_exists example_world ''data.csv''
   \<and> shape1 \<lparr>columns = cols27, rows = mixed_rows\<rparr> = 27
   \<and> len \<lparr>columns = cols27, rows = mixed_rows\<rparr> = 5
   \<and> rows (cleaned \<lparr>columns = cols27, rows = mixed_rows\<rparr>) = [good_row, good_row, good_row]
   \<and> take 4 (new_events example_world
        (snd (train_model (example_env cols27 mixed_rows) ''data.csv'' ''m.onnx'' ''m.json''
                example_world))) =
       [Stdout ''--- ML Training Pipeline Started ---'',
        Stdout ''Loading feature data from: data.csv'',
        Stdout ''Loaded 5 raw samples.'',
        Stdout ''Using 3 samples after cleaning NaN/inf values.'']"
proof -
  let ?df = "\<lparr>columns = cols27, rows = mixed_rows\<rparr> :: rat dataframe"
  have s: "shape1 ?df = 27" using shape1_cols27[of mixed_rows] by (simp add: len_FEATURE_NAMES)
  have l: "len ?df = 5" by (simp add: len_def mixed_rows_def)
  have g: "filter (\<lambda>r. \<forall>c\<in>set r. isfinite c) (rows ?df) = [good_row, good_row, good_row]"
    by (simp add: mixed_rows_def good_row_def nan_row_def)
  have n: "length (filter (\<lambda>r. \<exists>c\<in>set r. \<not> isfinite c) (rows ?df)) = 2"
    by (simp add: mixed_rows_def good_row_def nan_row_def)
  have s5: "str 5 = ''5''" and s3: "str 3 = ''3''" by (simp_all add: str.simps)
  have d: "(5::nat) - 2 = 3" by simp
  from cleaner_drops_rows[OF example_world_exists example_env_read shape1_cols27,
         of mixed_rows "''m.onnx''" "''m.json''"]
  have "rows (cleaned ?df) = filter (\<lambda>r. \<forall>c\<in>set r. isfinite c) (rows ?df)
     \<and> take 4 (new_events example_world
        (snd (train_model (example_env cols27 mixed_rows) ''data.csv'' ''m.onnx'' ''m.json''
                example_world))) =
          [Stdout ''--- ML Training Pipeline Started ---'',
           Stdout (''Loading feature data from: '' @ ''data.csv''),
           Stdout (''Loaded '' @ str (len ?df) @ '' raw samples.''),
           Stdout (''Using ''
                     @ str (len ?df - length (filter (\<lambda>r. \<exists>c\<in>set r. \<not> isfinite c) (rows ?df)))
                     @ '' samples after cleaning NaN/inf values.'')]"
    by blast
  then have "rows (cleaned ?df) = [good_row, good_row, good_row]
     \<and> take 4 (new_events example_world
        (snd (train_model (example_env cols27 mixed_rows) ''data.csv'' ''m.onnx'' ''m.json''
                example_world))) =
       [Stdout ''--- ML Training Pipeline Started ---'',
        Stdout ''Loading feature data from: data.csv'',
        Stdout ''Loaded 5 raw samples.'',
        Stdout ''Using 3 samples after cleaning NaN/inf values.'']"
    by (simp only: g n l d s5 s3) simp
  then show ?thesis using example_world_exists s l by blast
qed

text \<open>
  C3 (as amended). In a run that passes the two validations, with a generator that
  returns a permutation of \<open>range(n)\<close> for the seed 42, a cleaned frame of at least
  two rows is split into a training and an evaluation frame: the evaluation frame takes
  \<open>ceil(0.3 n)\<close> rows, the training frame the other rows; the two index lists are
  disjoint and cover all rows, so the two frames together hold exactly the rows of the
  cleaned frame; 1000 rows give 700 and 300. The run prints the size of this training
  frame, fits on it and scores the evaluation frame. Every other run on the same parsed
  data (any world, paths, clock and library outcomes, the generator returning the same
  permutation for the seed 42) makes the same two frames. A cleaned frame of fewer than
  two rows is not split: the run ends at line 77 with ValueError.
\<close>

theorem splitter_partitions:
  fixes E :: "('f, 'm, 'g) env"
  assumes ex: "os_path_exists w dp" and rd: "read_csv E (the (files w dp)) = Inr df"
    and cols: "shape1 df = length FEATURE_NAMES"
    and dist: "distinct (permutation E 42 (len (cleaned df)))"
    and range: "set (permutation E 42 (len (cleaned df))) = {0..<len (cleaned df)}"
  shows "(len (cleaned df) < 2 \<longrightarrow>
            split77 E df = Inl ValueError
          \<and> fst (train_model E dp mp mdp w) = Raised TrainTestSplit ValueError)
     \<and> (2 \<le> len (cleaned df) \<longrightarrow>
         (\<exists>tr te a b. split77 E df = Inr (tr, te)
           \<and> ((a, b) = iter_indices (permutation E 42 (len (cleaned df)))
                         (len (cleaned df) - (3 * len (cleaned df) + 9) div 10)
                         ((3 * len (cleaned df) + 9) div 10)
             \<and> tr = safe_indexing (cleaned df) a \<and> te = safe_indexing (cleaned df) b
             \<and> set a \<inter> set b = {} \<and> set a \<union> set b = {0..<len (cleaned df)}
             \<and> distinct a \<and> distinct b
             \<and> len te = (3 * len (cleaned df) + 9) div 10 \<and> len tr = len (cleaned df) - len te
             \<and> 0 < len tr \<and> 0 < len te
             \<and> mset (rows tr) + mset (rows te) = mset (rows (cleaned df))
             \<and> (len (cleaned df) = 1000 \<longrightarrow> len tr = 700 \<and> len te = 300))
           \<and> Stdout (''Training IsolationForest model on '' @ str (len tr) @ '' samples...'')
                \<in> set (new_events w (snd (train_model E dp mp mdp w)))
           \<and> (\<forall>e. fst (train_model E dp mp mdp w) \<noteq> Raised TrainTestSplit e)
           \<and> (\<forall>e. fit E forest_params tr = Inl e \<longrightarrow>
                  fst (train_model E dp mp mdp w) = Raised Fit e)
           \<and> (\<forall>m e. fit E forest_params tr = Inr m \<and> score_samples E m te = Inl e \<longrightarrow>
                  fst (train_model E dp mp mdp w) = Raised ScoreSamples e)
           \<and> (\<forall>(E' :: ('f, 'm, 'g) env) w0 dp0 mp0 mdp0.
                  os_path_exists w0 dp0 \<and> read_csv E' (the (files w0 dp0)) = Inr df
                  \<and> permutation E' 42 (len (cleaned df)) = permutation E 42 (len (cleaned df))
                \<longrightarrow> split77 E' df = Inr (tr, te)
                  \<and> Stdout (''Training IsolationForest model on '' @ str (len tr) @ '' samples...'')
                      \<in> set (new_events w0 (snd (train_model E' dp0 mp0 mdp0 w0)))
                  \<and> (\<forall>e. fit E' forest_params tr = Inl e \<longrightarrow>
                         fst (train_model E' dp0 mp0 mdp0 w0) = Raised Fit e)
                  \<and> (\<forall>m e. fit E' forest_params tr = Inr m \<and> score_samples E' m te = Inl e \<longrightarrow>
                         fst (train_model E' dp0 mp0 mdp0 w0) = Raised ScoreSamples e))))"
proof (intro conjI impI)
  assume "len (cleaned df) < 2"
  then have sp: "split77 E df = Inl ValueError" by (rule split77_small)
  then show "split77 E df = Inl ValueError" .
  from train_model_split_error[where mp=mp and mdp=mdp, OF ex rd cols sp]
  show "fst (train_model E dp mp mdp w) = Raised TrainTestSplit ValueError" by auto
next
  assume big: "2 \<le> len (cleaned df)"
  from train_test_split_partitions[where P="permutation E" and df="cleaned df", OF big dist range]
  obtain tr te a b where sp0: "train_test_split (permutation E) (cleaned df) (3 / 10) 42 = Inr (tr, te)"
    and part: "(a, b) = iter_indices (permutation E 42 (len (cleaned df)))
                         (len (cleaned df) - (3 * len (cleaned df) + 9) div 10)
                         ((3 * len (cleaned df) + 9) div 10)
             \<and> tr = safe_indexing (cleaned df) a \<and> te = safe_indexing (cleaned df) b
             \<and> set a \<inter> set b = {} \<and> set a \<union> set b = {0..<len (cleaned df)}
             \<and> distinct a \<and> distinct b
             \<and> len te = (3 * len (cleaned df) + 9) div 10 \<and> len tr = len (cleaned df) - len te
             \<and> 0 < len tr \<and> 0 < len te
             \<and> mset (rows tr) + mset (rows te) = mset (rows (cleaned df))
             \<and> (len (cleaned df) = 1000 \<longrightarrow> len tr = 700 \<and> len te = 300)"
    and det: "\<forall>P'. P' 42 (len (cleaned df)) = permutation E 42 (len (cleaned df))
                \<longrightarrow> train_test_split P' (cleaned df) (3 / 10) 42 = Inr (tr, te)"
    by blast
  have sp: "split77 E df = Inr (tr, te)" using sp0 by (simp only: split77_def)
  have uses: "Stdout (''Training IsolationForest model on '' @ str (len tr) @ '' samples...'')
                \<in> set (new_events w0 (snd (train_model E' dp0 mp0 mdp0 w0)))
           \<and> (\<forall>e. fst (train_model E' dp0 mp0 mdp0 w0) \<noteq> Raised TrainTestSplit e)
           \<and> (\<forall>e. fit E' forest_params tr = Inl e \<longrightarrow>
                  fst (train_model E' dp0 mp0 mdp0 w0) = Raised Fit e)
           \<and> (\<forall>m e. fit E' forest_params tr = Inr m \<and> score_samples E' m te = Inl e \<longrightarrow>
                  fst (train_model E' dp0 mp0 mdp0 w0) = Raised ScoreSamples e)"
    if ex': "os_path_exists w0 dp0" and rd': "read_csv E' (the (files w0 dp0)) = Inr df"
      and sp': "split77 E' df = Inr (tr, te)"
    for E' :: "('f, 'm, 'g) env" and w0 dp0 mp0 mdp0
  proof -
    from train_model_report[OF ex' rd' cols, where mp=mp0 and mdp=mdp0]
    have "\<forall>tr te. split77 E' df = Inr (tr, te) \<longrightarrow>
          Stdout (''Training IsolationForest model on '' @ str (len tr) @ '' samples...'')
            \<in> set (new_events w0 (snd (train_model E' dp0 mp0 mdp0 w0)))
          \<and> (\<forall>e. fst (train_model E' dp0 mp0 mdp0 w0) \<noteq> Raised TrainTestSplit e)"
      by (rule conjunct2[THEN conjunct2, THEN conjunct2])
    with sp' have u1: "Stdout (''Training IsolationForest model on '' @ str (len tr) @ '' samples...'')
            \<in> set (new_events w0 (snd (train_model E' dp0 mp0 mdp0 w0)))
          \<and> (\<forall>e. fst (train_model E' dp0 mp0 mdp0 w0) \<noteq> Raised TrainTestSplit e)"
      by blast
    have u2: "fst (train_model E' dp0 mp0 mdp0 w0) = Raised Fit e"
      if "fit E' forest_params tr = Inl e" for e
      using train_model_fit_error[where mp=mp0 and mdp=mdp0, OF ex' rd' cols sp' that] by auto
    have u3: "fst (train_model E' dp0 mp0 mdp0 w0) = Raised ScoreSamples e"
      if "fit E' forest_params tr = Inr m" "score_samples E' m te = Inl e" for m e
      using train_model_score_error[where mp=mp0 and mdp=mdp0, OF ex' rd' cols sp' that] by auto
    from u1 u2 u3 show ?thesis by blast
  qed
  have again: "split77 E' df = Inr (tr, te)
        \<and> Stdout (''Training IsolationForest model on '' @ str (len tr) @ '' samples...'')
            \<in> set (new_events w0 (snd (train_model E' dp0 mp0 mdp0 w0)))
        \<and> (\<forall>e. fit E' forest_params tr = Inl e \<longrightarrow>
               fst (train_model E' dp0 mp0 mdp0 w0) = Raised Fit e)
        \<and> (\<forall>m e. fit E' forest_params tr = Inr m \<and> score_samples E' m te = Inl e \<longrightarrow>
               fst (train_model E' dp0 mp0 mdp0 w0) = Raised ScoreSamples e)"
    if h: "os_path_exists w0 dp0 \<and> read_csv E' (the (files w0 dp0)) = Inr df
        \<and> permutation E' 42 (len (cleaned df)) = permutation E 42 (len (cleaned df))"
    for E' :: "('f, 'm, 'g) env" and w0 dp0 mp0 mdp0
  proof -
    from h det have "train_test_split (permutation E') (cleaned df) (3 / 10) 42 = Inr (tr, te)"
      by blast
    then have sp': "split77 E' df = Inr (tr, te)" by (simp only: split77_def)
    from h have ex': "os_path_exists w0 dp0" and rd': "read_csv E' (the (files w0 dp0)) = Inr df"
      by simp_all
    from uses[OF ex' rd' sp', of mp0 mdp0] sp' show ?thesis by blast
  qed
  note here = uses[OF ex rd sp, of mp mdp]
  show "\<exists>tr te a b. split77 E df = Inr (tr, te)
           \<and> ((a, b) = iter_indices (permutation E 42 (len (cleaned df)))
                         (len (cleaned df) - (3 * len (cleaned df) + 9) div 10)
                         ((3 * len (cleaned df) + 9) div 10)
             \<and> tr = safe_indexing (cleaned df) a \<and> te = safe_indexing (cleaned df) b
             \<and> set a \<inter> set b = {} \<and> set a \<union> set b = {0..<len (cleaned df)}
             \<and> distinct a \<and> distinct b
             \<and> len te = (3 * len (cleaned df) + 9) div 10 \<and> len tr = len (cleaned df) - len te
             \<and> 0 < len tr \<and> 0 < len te
             \<and> mset (rows tr) + mset (rows te) = mset (rows (cleaned df))
             \<and> (len (cleaned df) = 1000 \<longrightarrow> len tr = 700 \<and> len te = 300))
           \<and> Stdout (''Training IsolationForest model on '' @ str (len tr) @ '' samples...'')
                \<in> set (new_events w (snd (train_model E dp mp mdp w)))
           \<and> (\<forall>e. fst (train_model E dp mp mdp w) \<noteq> Raised TrainTestSplit e)
           \<and> (\<forall>e. fit E forest_params tr = Inl e \<longrightarrow>
                  fst (train_model E dp mp mdp w) = Raised Fit e)
           \<and> (\<forall>m e. fit E forest_params tr = Inr m \<and> score_samples E m te = Inl e \<longrightarrow>
                  fst (train_model E dp mp mdp w) = Raised ScoreSamples e)
           \<and> (\<forall>(E' :: ('f, 'm, 'g) env) w0 dp0 mp0 mdp0.
                  os_path_exists w0 dp0 \<and> read_csv E' (the (files w0 dp0)) = Inr df
                  \<and> permutation E' 42 (len (cleaned df)) = permutation E 42 (len (cleaned df))
                \<longrightarrow> split77 E' df = Inr (tr, te)
                  \<and> Stdout (''Training IsolationForest model on '' @ str (len tr) @ '' samples...'')
                      \<in> set (new_events w0 (snd (train_model E' dp0 mp0 mdp0 w0)))
                  \<and> (\<forall>e. fit E' forest_params tr = Inl e \<longrightarrow>
                         fst (train_model E' dp0 mp0 mdp0 w0) = Raised Fit e)
                  \<and> (\<forall>m e. fit E' forest_params tr = Inr m \<and> score_samples E' m te = Inl e \<longrightarrow>
                         fst (train_model E' dp0 mp0 mdp0 w0) = Raised ScoreSamples e))"
    apply (rule exI[of _ tr], rule exI[of _ te], rule exI[of _ a], rule exI[of _ b])
    using sp part here again by blast
qed

theorem splitter_partitions_witness:
  "len (cleaned \<lparr>columns = cols27, rows = replicate 10 good_row\<rparr>) = 10
   \<and> distinct (permutation (example_env cols27 (replicate 10 good_row)) 42 10)
   \<and> set (permutation (example_env cols27 (replicate 10 good_row)) 42 10) = {0..<10}
   \<and> (\<exists>tr te. split77 (example_env cols27 (replicate 10 good_row))
                  \<lparr>columns = cols27, rows = replicate 10 good_row\<rparr> = Inr (tr, te)
        \<and> len tr = 7 \<and> len te = 3
        \<and> mset (rows tr) + mset (rows te)
            = mset (rows (cleaned \<lparr>columns = cols27, rows = replicate 10 good_row\<rparr>))
        \<and> Stdout ''Training IsolationForest model on 7 samples...''
            \<in> set (new_events example_world
                 (snd (train_model (example_env cols27 (replicate 10 good_row)) ''data.csv''
                         ''m.onnx'' ''m.json'' example_world))))"
proof -
  let ?E = "example_env cols27 (replicate 10 good_row)"
  let ?df = "\<lparr>columns = cols27, rows = replicate 10 good_row\<rparr> :: rat dataframe"
  have l: "len (cleaned ?df) = 10" by (simp only: cleaned_good_rows) (simp add: len_def)
  have pm: "permutation ?E 42 n = rev [0..<n]" for n by (simp add: example_env_def)
  have dist: "distinct (permutation ?E 42 (len (cleaned ?df)))" by (simp add: pm)
  have range: "set (permutation ?E 42 (len (cleaned ?df))) = {0..<len (cleaned ?df)}"
    by (simp add: pm)
  have big: "2 \<le> len (cleaned ?df)" by (simp only: l)
  from splitter_partitions[OF example_world_exists example_env_read shape1_cols27 dist range,
         of "''m.onnx''" "''m.json''"] big
  obtain tr te where sp: "split77 ?E ?df = Inr (tr, te)"
    and lte: "len te = (3 * len (cleaned ?df) + 9) div 10"
    and ltr: "len tr = len (cleaned ?df) - len te"
    and ms: "mset (rows tr) + mset (rows te) = mset (rows (cleaned ?df))"
    and line: "Stdout (''Training IsolationForest model on '' @ str (len tr) @ '' samples...'')
         \<in> set (new_events example_world
              (snd (train_model ?E ''data.csv'' ''m.onnx'' ''m.json'' example_world)))"
    by blast
  have te3: "len te = 3" using lte by (simp add: l)
  have tr7: "len tr = 7" using ltr by (simp add: l te3)
  have s7: "str 7 = ''7''" by (simp add: str.simps)
  from line have line7: "Stdout ''Training IsolationForest model on 7 samples...''
         \<in> set (new_events example_world
              (snd (train_model ?E ''data.csv'' ''m.onnx'' ''m.json'' example_world)))"
    by (simp add: tr7 s7)
  have d10: "distinct (permutation ?E 42 10)" and r10: "set (permutation ?E 42 10) = {0..<10}"
    by (simp_all add: pm)
  show ?thesis using l d10 r10 sp tr7 te3 ms line7 by blast
qed

text \<open>
  C3 as stated fails for a cleaned data frame of one row: the evaluation frame would
  take that row, the training frame would be empty, and the splitter raises.
\<close>

theorem splitter_rejects_single_row_counterexample:
  "len (cleaned \<lparr>columns = cols27, rows = [good_row, nan_row]\<rparr>) = 1
   \<and> split77 (example_env cols27 [good_row, nan_row])
        \<lparr>columns = cols27, rows = [good_row, nan_row]\<rparr> = Inl ValueError
   \<and> fst (train_model (example_env cols27 [good_row, nan_row]) ''data.csv'' ''m.onnx''
            ''m.json'' example_world) = Raised TrainTestSplit ValueError"
proof -
  let ?df = "\<lparr>columns = cols27, rows = [good_row, nan_row]\<rparr> :: rat dataframe"
  have l: "len (cleaned ?df) = 1"
    by (simp add: cleaned_def dropna_def replace_def good_row_def nan_row_def len_def)
  then have "len (cleaned ?df) < 2" by simp
  then have sp: "split77 (example_env cols27 [good_row, nan_row]) ?df = Inl ValueError"
    by (rule split77_small)
  from train_model_split_error[where mp="''m.onnx''" and mdp="''m.json''",
         OF example_world_exists example_env_read shape1_cols27 sp]
  have "fst (train_model (example_env cols27 [good_row, nan_row]) ''data.csv'' ''m.onnx''
            ''m.json'' example_world) = Raised TrainTestSplit ValueError"
    by auto
  with l sp show ?thesis by blast
qed

end
